theory Spec2Isabelle
  imports Main "HOL-Library.Word" "HOL-Library.AList"
begin

section \<open>Go values as the marshaller sees them through reflection\<close>

text \<open>
  The marshaller of \<^verbatim>\<open>response.go\<close> walks a pointer to an annotated struct with Go's
  \<^verbatim>\<open>reflect\<close> package. The embedding keeps what reflection reads: the kind and type of a
  value, the struct tag of every field, and the value itself. Field types are Go's
  predeclared types, \<^verbatim>\<open>time.Time\<close>, struct types (by name), pointers and slices; all
  fields are exported. Go's \<^verbatim>\<open>int\<close> and \<^verbatim>\<open>uint\<close> are taken at 64 bits.
\<close>

datatype Kind =
  KBool | KInt | KInt8 | KInt16 | KInt32 | KInt64
  | KUint | KUint8 | KUint16 | KUint32 | KUint64
  | KString | KStruct | KPtr | KSlice

datatype GoType =
  TBool | TInt | TInt8 | TInt16 | TInt32 | TInt64
  | TUint | TUint8 | TUint16 | TUint32 | TUint64
  | TString | TTime | TStruct string | TPtr GoType | TSlice GoType

fun kindOf :: "GoType \<Rightarrow> Kind" where
  "kindOf TBool = KBool"
| "kindOf TInt = KInt"
| "kindOf TInt8 = KInt8"
| "kindOf TInt16 = KInt16"
| "kindOf TInt32 = KInt32"
| "kindOf TInt64 = KInt64"
| "kindOf TUint = KUint"
| "kindOf TUint8 = KUint8"
| "kindOf TUint16 = KUint16"
| "kindOf TUint32 = KUint32"
| "kindOf TUint64 = KUint64"
| "kindOf TString = KString"
| "kindOf TTime = KStruct"
| "kindOf (TStruct n) = KStruct"
| "kindOf (TPtr t) = KPtr"
| "kindOf (TSlice t) = KSlice"

text \<open>
  \<^verbatim>\<open>time.Time\<close>: the instant as Unix seconds and nanoseconds, and the offset of the
  location the time is shown in (seconds east of UTC).
\<close>

record Time =
  unixSec :: int
  nsec :: nat
  zoneOffset :: int

type_synonym Meta = "(string \<times> string) list"

text \<open>
  \<^verbatim>\<open>Links\<close> is a map from a link name to a dynamic value; a well-formed value is a string
  or a \<^verbatim>\<open>Link\<close> object (href and meta).
\<close>

datatype LinkValue = LinkString string | LinkObject string Meta | LinkOther

type_synonym Links = "(string \<times> LinkValue) list"

text \<open>
  The optional capabilities of a model type, as the values its methods return:
  \<^verbatim>\<open>Linkable.JSONAPILinks\<close>, \<^verbatim>\<open>Metable.JSONAPIMeta\<close>,
  \<^verbatim>\<open>RelationshipLinkable.JSONAPIRelationshipLinks\<close> and
  \<^verbatim>\<open>RelationshipMetable.JSONAPIRelationshipMeta\<close>. \<open>None\<close> at the outer level: the
  type does not implement the interface. The two relationship methods are the table of
  what they return for each relationship name; a name that is not in the table gets
  the nil pointer.
\<close>

record Caps =
  jsonapiLinks :: "Links option"
  jsonapiMeta :: "Meta option"
  jsonapiRelationshipLinks :: "(string \<times> Links) list option"
  jsonapiRelationshipMeta :: "(string \<times> Meta) list option"

definition noCaps :: Caps where
  "noCaps = \<lparr>jsonapiLinks = None, jsonapiMeta = None,
     jsonapiRelationshipLinks = None, jsonapiRelationshipMeta = None\<rparr>"

text \<open>
  A value carries its dynamic type: a nil pointer or nil slice keeps the type it was
  declared with, a slice keeps its element type, a struct its type name, its fields in
  declaration order and the capabilities of its type.
\<close>

datatype Value =
  VBool bool
  | VInt "64 word" | VInt8 "8 word" | VInt16 "16 word" | VInt32 "32 word" | VInt64 "64 word"
  | VUint "64 word" | VUint8 "8 word" | VUint16 "16 word" | VUint32 "32 word"
  | VUint64 "64 word"
  | VString string
  | VTime Time
  | VNil GoType
  | VPtr Value
  | VSlice GoType "Value list"
  | VStruct string "Field list" Caps
and Field = Field (ftag: string) (fvalue: Value)

fun typeOf :: "Value \<Rightarrow> GoType" where
  "typeOf (VBool b) = TBool"
| "typeOf (VInt w) = TInt"
| "typeOf (VInt8 w) = TInt8"
| "typeOf (VInt16 w) = TInt16"
| "typeOf (VInt32 w) = TInt32"
| "typeOf (VInt64 w) = TInt64"
| "typeOf (VUint w) = TUint"
| "typeOf (VUint8 w) = TUint8"
| "typeOf (VUint16 w) = TUint16"
| "typeOf (VUint32 w) = TUint32"
| "typeOf (VUint64 w) = TUint64"
| "typeOf (VString s) = TString"
| "typeOf (VTime t) = TTime"
| "typeOf (VNil ty) = ty"
| "typeOf (VPtr v) = TPtr (typeOf v)"
| "typeOf (VSlice ty xs) = TSlice ty"
| "typeOf (VStruct n fs c) = TStruct n"

section \<open>Errors\<close>

text \<open>
  The error values of \<^verbatim>\<open>response.go\<close>, the error of an invalid link, and a run-time
  panic of Go (a failed type assertion, a \<^verbatim>\<open>reflect\<close> call on a value of the wrong
  kind, a nil dereference), which aborts the call without an error value.
\<close>

datatype error =
  ErrBadJSONAPIStructTag
  | ErrBadJSONAPIID
  | ErrExpectedSlice
  | ErrUnexpectedType
  | ErrInvalidLink
  | Panic

section \<open>Strings and numbers of the Go library\<close>

text \<open>
  \<^verbatim>\<open>strings.Split(s, sep)\<close>: the pieces of \<open>s\<close> between the occurrences of \<open>sep\<close>, found
  from the left without overlap; an empty separator splits after every character.
  \<open>splitFrom cur s sep\<close> has read the piece \<open>cur\<close> so far.
\<close>

function splitFrom :: "string \<Rightarrow> string \<Rightarrow> string \<Rightarrow> string list" where
  "splitFrom cur [] sep = [cur]"
| "splitFrom cur (c # cs) sep =
     (if sep \<noteq> [] \<and> take (length sep) (c # cs) = sep
      then cur # splitFrom [] (drop (length sep) (c # cs)) sep
      else splitFrom (cur @ [c]) cs sep)"
  by pat_completeness auto
termination
  by (relation "measure (\<lambda>(cur, s, sep). length s)") auto

definition Split :: "string \<Rightarrow> string \<Rightarrow> string list" where
  "Split s sep = (if sep = [] then map (\<lambda>c. [c]) s else splitFrom [] s sep)"

text \<open>
  \<^verbatim>\<open>strconv.FormatUint(i, 10)\<close> and \<^verbatim>\<open>strconv.FormatInt(i, 10)\<close>: the decimal digits of
  the unsigned value, and for a negative signed value a minus sign and the digits of its
  magnitude.
\<close>

definition digitChar :: "nat \<Rightarrow> char" where
  "digitChar d = char_of (48 + d)"

function formatBits :: "nat \<Rightarrow> string" where
  "formatBits n = (if n < 10 then [digitChar n] else formatBits (n div 10) @ [digitChar (n mod 10)])"
  by pat_completeness auto
termination
  by (relation "measure id") auto

declare formatBits.simps [simp del]

definition FormatUint :: "64 word \<Rightarrow> string" where
  "FormatUint i = formatBits (unat i)"

definition FormatInt :: "64 word \<Rightarrow> string" where
  "FormatInt i = (if sint i < 0 then CHR ''-'' # formatBits (nat (- sint i))
                  else formatBits (nat (sint i)))"

text \<open>Reading a decimal string back: what a consumer of the identifier does.\<close>

definition digitVal :: "char \<Rightarrow> nat" where
  "digitVal c = of_char c - 48"

definition parseDigits :: "string \<Rightarrow> nat" where
  "parseDigits s = foldl (\<lambda>a c. 10 * a + digitVal c) 0 s"

definition parseDecimal :: "string \<Rightarrow> int" where
  "parseDecimal s = (case s of
       [] \<Rightarrow> 0
     | c # cs \<Rightarrow> if c = CHR ''-'' then - int (parseDigits cs) else int (parseDigits s))"

section \<open>Timestamps\<close>

text \<open>
  The zero \<^verbatim>\<open>time.Time\<close> is January 1 of year 1, 00:00:00 UTC, which is
  \<open>-62135596800\<close> in Unix seconds.
\<close>

definition zeroTime :: Time where
  "zeroTime = \<lparr>unixSec = - 62135596800, nsec = 0, zoneOffset = 0\<rparr>"

definition IsZero :: "Time \<Rightarrow> bool" where
  "IsZero t \<longleftrightarrow> unixSec t = - 62135596800 \<and> nsec t = 0"

definition UTC :: "Time \<Rightarrow> Time" where
  "UTC t = t\<lparr>zoneOffset := 0\<rparr>"

definition Unix :: "Time \<Rightarrow> 64 word" where
  "Unix t = word_of_int (unixSec t)"

text \<open>The civil date (year, month, day) of a day number counted from 1970-01-01.\<close>

definition civilFromDays :: "int \<Rightarrow> int \<times> int \<times> int" where
  "civilFromDays z0 =
     (let z = z0 + 719468;
          era = z div 146097;
          doe = z - era * 146097;
          yoe = (doe - doe div 1460 + doe div 36524 - doe div 146096) div 365;
          doy = doe - (365 * yoe + yoe div 4 - yoe div 100);
          mp = (5 * doy + 2) div 153;
          d = doy - (153 * mp + 2) div 5 + 1;
          m = (if mp < 10 then mp + 3 else mp - 9);
          y = yoe + era * 400 + (if m \<le> 2 then 1 else 0)
      in (y, m, d))"

definition zeroPad :: "nat \<Rightarrow> int \<Rightarrow> string" where
  "zeroPad w x =
     (let ds = formatBits (nat \<bar>x\<bar>)
      in (if x < 0 then ''-'' else []) @ replicate (w - length ds) CHR ''0'' @ ds)"

definition localSec :: "Time \<Rightarrow> int" where
  "localSec t = unixSec t + zoneOffset t"

definition zoneString :: "Time \<Rightarrow> string" where
  "zoneString t =
     (if zoneOffset t = 0 then ''Z''
      else let zone = zoneOffset t div 60;
               a = \<bar>zone\<bar>
           in (if zone < 0 then ''-'' else ''+'') @ zeroPad 2 (a div 60) @ '':''
              @ zeroPad 2 (a mod 60))"

text \<open>
  \<^verbatim>\<open>Time.Format\<close>, for layouts made of the reference-time elements \<^verbatim>\<open>2006\<close>,
  \<^verbatim>\<open>01\<close>, \<^verbatim>\<open>02\<close>, \<^verbatim>\<open>15\<close>, \<^verbatim>\<open>04\<close>, \<^verbatim>\<open>05\<close> and \<^verbatim>\<open>Z07:00\<close>; any other character
  of the layout is copied. These are the elements of the two layouts the marshaller uses.
\<close>

function Format :: "Time \<Rightarrow> string \<Rightarrow> string" where
  "Format t [] = []"
| "Format t (c # cs) =
     (let l = c # cs; (y, m, d) = civilFromDays (localSec t div 86400);
          s = localSec t mod 86400
      in if take 6 l = ''Z07:00'' then zoneString t @ Format t (drop 6 l)
         else if take 4 l = ''2006'' then zeroPad 4 y @ Format t (drop 4 l)
         else if take 2 l = ''01'' then zeroPad 2 m @ Format t (drop 2 l)
         else if take 2 l = ''02'' then zeroPad 2 d @ Format t (drop 2 l)
         else if take 2 l = ''15'' then zeroPad 2 (s div 3600) @ Format t (drop 2 l)
         else if take 2 l = ''04'' then zeroPad 2 (s mod 3600 div 60) @ Format t (drop 2 l)
         else if take 2 l = ''05'' then zeroPad 2 (s mod 60) @ Format t (drop 2 l)
         else c # Format t cs)"
  by pat_completeness auto
termination
  by (relation "measure (\<lambda>(t, l). length l)") auto

definition RFC3339 :: string where
  "RFC3339 = ''2006-01-02T15:04:05Z07:00''"

section \<open>Constants of the package\<close>

text \<open>
  Modelled from the spec: the constants file of the package is not among the sources.
  The field metadata is \<^verbatim>\<open>role[,outputName[,modifier...]]\<close> with the roles \<^verbatim>\<open>primary\<close>,
  \<^verbatim>\<open>client-id\<close>, \<^verbatim>\<open>attr\<close>, \<^verbatim>\<open>relation\<close> and the modifiers \<^verbatim>\<open>omitempty\<close>,
  \<^verbatim>\<open>iso8601\<close>, \<^verbatim>\<open>rfc3339\<close>; the ISO-8601 layout is the UTC form with a literal
  \<^verbatim>\<open>Z\<close>.
\<close>

definition annotationSeperator :: string where "annotationSeperator = '',''"
definition annotationPrimary :: string where "annotationPrimary = ''primary''"
definition annotationClientID :: string where "annotationClientID = ''client-id''"
definition annotationAttribute :: string where "annotationAttribute = ''attr''"
definition annotationRelation :: string where "annotationRelation = ''relation''"
definition annotationOmitEmpty :: string where "annotationOmitEmpty = ''omitempty''"
definition annotationISO8601 :: string where "annotationISO8601 = ''iso8601''"
definition annotationRFC3339 :: string where "annotationRFC3339 = ''rfc3339''"
definition iso8601TimeFormat :: string where "iso8601TimeFormat = ''2006-01-02T15:04:05Z''"

section \<open>The document: nodes, relationships, payloads\<close>

text \<open>
  Modelled from the spec: the declarations of \<^verbatim>\<open>Node\<close>, \<^verbatim>\<open>RelationshipOneNode\<close>,
  \<^verbatim>\<open>RelationshipManyNode\<close>, \<^verbatim>\<open>OnePayload\<close> and \<^verbatim>\<open>ManyPayload\<close> are not among the
  sources; their fields are the ones \<^verbatim>\<open>response.go\<close> assigns. A Go map is an
  association list read through \<open>map_of\<close>; \<open>None\<close> is the nil map, which differs from
  the empty map. An attribute value is a dynamic value or the nil interface.
\<close>

datatype AttrValue = Null | Val Value

datatype Node = Node
    (Type: string) (ID: string) (ClientID: string)
    (Attributes: "(string \<times> AttrValue) list option")
    (Relationships: "(string \<times> Relationship) list option")
    (Links: "Links option") (Meta: "Meta option")
and Relationship =
    RelationshipOneNode "Node option" "Links option" "Meta option"
  | RelationshipManyNode "Node list" "Links option" "Meta option"

record OnePayload =
  oneData :: "Node option"
  oneIncluded :: "Node list option"
  oneLinks :: "Links option"
  oneMeta :: "Meta option"


definition newNode :: Node where
  "newNode = Node [] [] [] None None None None"

fun setID :: "string \<Rightarrow> Node \<Rightarrow> Node" where
  "setID v (Node ty i c a r l m) = Node ty v c a r l m"

fun setType :: "string \<Rightarrow> Node \<Rightarrow> Node" where
  "setType v (Node ty i c a r l m) = Node v i c a r l m"

fun setClientID :: "string \<Rightarrow> Node \<Rightarrow> Node" where
  "setClientID v (Node ty i c a r l m) = Node ty i v a r l m"

fun setLinks :: "Links option \<Rightarrow> Node \<Rightarrow> Node" where
  "setLinks v (Node ty i c a r l m) = Node ty i c a r v m"

fun setMeta :: "Meta option \<Rightarrow> Node \<Rightarrow> Node" where
  "setMeta v (Node ty i c a r l m) = Node ty i c a r l v"

text \<open>\<^verbatim>\<open>if node.Attributes == nil { node.Attributes = make(...) }\<close>, and the same for
  the relationships.\<close>

fun makeAttributes :: "Node \<Rightarrow> Node" where
  "makeAttributes (Node ty i c a r l m) =
     Node ty i c (case a of None \<Rightarrow> Some [] | Some al \<Rightarrow> Some al) r l m"

fun makeRelationships :: "Node \<Rightarrow> Node" where
  "makeRelationships (Node ty i c a r l m) =
     Node ty i c a (case r of None \<Rightarrow> Some [] | Some rl \<Rightarrow> Some rl) l m"

text \<open>
  \<^verbatim>\<open>node.Attributes[k] = v\<close> and \<^verbatim>\<open>node.Relationships[k] = v\<close>. An assignment to an
  entry of a nil map panics in Go.
\<close>

fun putAttribute :: "string \<Rightarrow> AttrValue \<Rightarrow> Node \<Rightarrow> error + Node" where
  "putAttribute k v (Node ty i c a r l m) =
     (case a of None \<Rightarrow> Inl Panic
      | Some al \<Rightarrow> Inr (Node ty i c (Some (AList.update k v al)) r l m))"

fun putRelationship :: "string \<Rightarrow> Relationship \<Rightarrow> Node \<Rightarrow> error + Node" where
  "putRelationship k v (Node ty i c a r l m) =
     (case r of None \<Rightarrow> Inl Panic
      | Some rl \<Rightarrow> Inr (Node ty i c a (Some (AList.update k v rl)) l m))"

text \<open>Reading a map of a node: the nil map has no entries.\<close>

definition attribute :: "Node \<Rightarrow> string \<Rightarrow> AttrValue option" where
  "attribute n k = (case Attributes n of None \<Rightarrow> None | Some al \<Rightarrow> map_of al k)"

definition relationship :: "Node \<Rightarrow> string \<Rightarrow> Relationship option" where
  "relationship n k = (case Relationships n of None \<Rightarrow> None | Some rl \<Rightarrow> map_of rl k)"

section \<open>Helpers of the package that the sources call\<close>

text \<open>
  Modelled from the spec: \<^verbatim>\<open>toShallowNode\<close> is not among the sources. A reference
  ("shallow node") is the id, the type and the client id only.
\<close>

definition toShallowNode :: "Node \<Rightarrow> Node" where
  "toShallowNode n = Node (Type n) (ID n) (ClientID n) None None None None"

text \<open>
  Modelled from the spec: \<^verbatim>\<open>appendIncluded\<close> is not among the sources. The registry
  maps (type, id) to the node registered for it; a registration for a key that is
  already there replaces the stored node. The sources declare the registry as
  \<^verbatim>\<open>map[string]*Node\<close> and pass a pointer to it; the embedded entry point passes the nil
  pointer, \<open>None\<close> here, and writing through it panics.
\<close>

type_synonym Registry = "((string \<times> string) \<times> Node) list"

definition nodeKey :: "Node \<Rightarrow> string \<times> string" where
  "nodeKey n = (Type n, ID n)"

definition appendIncluded :: "Registry option \<Rightarrow> Node \<Rightarrow> error + Registry option" where
  "appendIncluded m n =
     (case m of None \<Rightarrow> Inl Panic
      | Some included \<Rightarrow> Inr (Some (AList.update (nodeKey n) n included)))"

text \<open>
  Modelled from the spec: \<^verbatim>\<open>nodeMapValues\<close> is not among the sources. The entries of
  the registry become the included list.
\<close>

definition nodeMapValues :: "Registry option \<Rightarrow> error + Node list" where
  "nodeMapValues m = (case m of None \<Rightarrow> Inl Panic | Some included \<Rightarrow> Inr (map snd included))"

text \<open>
  Modelled from the spec: \<^verbatim>\<open>Links.validate\<close> is not among the sources. Each link's
  target form is checked: a string or a link object.
\<close>

definition validate :: "Links \<Rightarrow> error option" where
  "validate jl = (if LinkOther \<in> snd ` set jl then Some ErrInvalidLink else None)"

section \<open>Reading a field through reflection\<close>

text \<open>\<^verbatim>\<open>Value.IsNil\<close> panics on a value that is not a pointer or a slice.\<close>

fun IsNil :: "Value \<Rightarrow> error + bool" where
  "IsNil (VNil ty) = Inr True"
| "IsNil (VPtr v) = Inr False"
| "IsNil (VSlice ty xs) = Inr False"
| "IsNil v = Inl Panic"

text \<open>\<^verbatim>\<open>Value.Len\<close> of a slice; the nil slice has length 0.\<close>

fun Len :: "Value \<Rightarrow> nat" where
  "Len (VSlice ty xs) = length xs"
| "Len v = 0"

text \<open>\<^verbatim>\<open>Type.Elem\<close> of a pointer or slice type.\<close>

fun Elem :: "GoType \<Rightarrow> GoType" where
  "Elem (TPtr t) = t"
| "Elem (TSlice t) = t"
| "Elem t = t"

text \<open>
  \<^verbatim>\<open>reflect.Indirect\<close>: what a pointer points to, the invalid value (\<open>None\<close>) for a nil
  pointer, the value itself when it is no pointer.
\<close>

fun Indirect :: "Value \<Rightarrow> Value option" where
  "Indirect (VPtr v) = Some v"
| "Indirect (VNil ty) = None"
| "Indirect v = Some v"

text \<open>The name of a type, as \<^verbatim>\<open>Value.String\<close> prints it for a value that is no string.\<close>

fun typeString :: "GoType \<Rightarrow> string" where
  "typeString TBool = ''bool''"
| "typeString TInt = ''int''"
| "typeString TInt8 = ''int8''"
| "typeString TInt16 = ''int16''"
| "typeString TInt32 = ''int32''"
| "typeString TInt64 = ''int64''"
| "typeString TUint = ''uint''"
| "typeString TUint8 = ''uint8''"
| "typeString TUint16 = ''uint16''"
| "typeString TUint32 = ''uint32''"
| "typeString TUint64 = ''uint64''"
| "typeString TString = ''string''"
| "typeString TTime = ''time.Time''"
| "typeString (TStruct n) = n"
| "typeString (TPtr t) = CHR ''*'' # typeString t"
| "typeString (TSlice t) = ''[]'' @ typeString t"

definition String_of :: "Value \<Rightarrow> string" where
  "String_of v = (case v of VString s \<Rightarrow> s | _ \<Rightarrow> ''<'' @ typeString (typeOf v) @ '' Value>'')"

section \<open>The branches of the field loop of \<^verbatim>\<open>visitModelNode\<close>\<close>

text \<open>
  Type assertions \<^verbatim>\<open>v.Interface().(T)\<close> of the primary-key switch: they panic when
  \<open>v\<close> is the invalid value or holds a value of another type.
\<close>

definition primaryID :: "Kind \<Rightarrow> Value option \<Rightarrow> error + string" where
  "primaryID kind v =
     (case kind of
        KString \<Rightarrow> (case v of Some (VString s) \<Rightarrow> Inr s | _ \<Rightarrow> Inl Panic)
      | KInt \<Rightarrow> (case v of Some (VInt x) \<Rightarrow> Inr (FormatInt (scast x)) | _ \<Rightarrow> Inl Panic)
      | KInt8 \<Rightarrow> (case v of Some (VInt8 x) \<Rightarrow> Inr (FormatInt (scast x)) | _ \<Rightarrow> Inl Panic)
      | KInt16 \<Rightarrow> (case v of Some (VInt16 x) \<Rightarrow> Inr (FormatInt (scast x)) | _ \<Rightarrow> Inl Panic)
      | KInt32 \<Rightarrow> (case v of Some (VInt32 x) \<Rightarrow> Inr (FormatInt (scast x)) | _ \<Rightarrow> Inl Panic)
      | KInt64 \<Rightarrow> (case v of Some (VInt64 x) \<Rightarrow> Inr (FormatInt x) | _ \<Rightarrow> Inl Panic)
      | KUint \<Rightarrow> (case v of Some (VUint x) \<Rightarrow> Inr (FormatUint (ucast x)) | _ \<Rightarrow> Inl Panic)
      | KUint8 \<Rightarrow> (case v of Some (VUint8 x) \<Rightarrow> Inr (FormatUint (ucast x)) | _ \<Rightarrow> Inl Panic)
      | KUint16 \<Rightarrow> (case v of Some (VUint16 x) \<Rightarrow> Inr (FormatUint (ucast x)) | _ \<Rightarrow> Inl Panic)
      | KUint32 \<Rightarrow> (case v of Some (VUint32 x) \<Rightarrow> Inr (FormatUint (ucast x)) | _ \<Rightarrow> Inl Panic)
      | KUint64 \<Rightarrow> (case v of Some (VUint64 x) \<Rightarrow> Inr (FormatUint x) | _ \<Rightarrow> Inl Panic)
      | _ \<Rightarrow> Inl ErrBadJSONAPIID)"

text \<open>
  The \<^verbatim>\<open>primary\<close> branch (lines 119 to 162): the kind is the field's own, or the kind of
  what a pointer field points to; the id is set from the switch, then the type from the
  second part of the tag.
\<close>

definition visitPrimary :: "string list \<Rightarrow> Value \<Rightarrow> Node \<Rightarrow> error + Node" where
  "visitPrimary args fieldValue node =
     (let (kind, v) =
            (if kindOf (typeOf fieldValue) = KPtr
             then (kindOf (Elem (typeOf fieldValue)), Indirect fieldValue)
             else (kindOf (typeOf fieldValue), Some fieldValue))
      in case primaryID kind v of
           Inl er \<Rightarrow> Inl er
         | Inr i \<Rightarrow> Inr (setType (args ! 1) (setID i node)))"

text \<open>The \<^verbatim>\<open>client-id\<close> branch (lines 163 to 167).\<close>

definition visitClientID :: "Value \<Rightarrow> Node \<Rightarrow> Node" where
  "visitClientID fieldValue node =
     (let clientID = String_of fieldValue
      in if clientID \<noteq> [] then setClientID clientID node else node)"

text \<open>
  The modifiers of an attribute (lines 169 to 182): the loop over \<^verbatim>\<open>args[2:]\<close> sets a
  flag for each keyword it knows and passes over any other.
\<close>

record Modifiers =
  omitEmpty :: bool
  iso8601 :: bool
  rfc3339 :: bool

fun scanModifiers :: "string list \<Rightarrow> Modifiers \<Rightarrow> Modifiers" where
  "scanModifiers [] m = m"
| "scanModifiers (arg # rest) m =
     scanModifiers rest
       (if arg = annotationOmitEmpty then m\<lparr>omitEmpty := True\<rparr>
        else if arg = annotationISO8601 then m\<lparr>iso8601 := True\<rparr>
        else if arg = annotationRFC3339 then m\<lparr>rfc3339 := True\<rparr>
        else m)"

definition attrModifiers :: "string list \<Rightarrow> Modifiers" where
  "attrModifiers args =
     (let m = \<lparr>omitEmpty = False, iso8601 = False, rfc3339 = False\<rparr>
      in if length args > 2 then scanModifiers (drop 2 args) m else m)"

text \<open>
  \<^verbatim>\<open>reflect.Zero(v.Type())\<close>, from the value that carries the type, and
  \<^verbatim>\<open>reflect.DeepEqual\<close>: values of distinct types are never deeply equal, a nil pointer
  or slice equals only a nil one, structs are compared field by field.
\<close>

fun Zero :: "Value \<Rightarrow> Value"
and ZeroFields :: "Field list \<Rightarrow> Field list" where
  "Zero (VBool b) = VBool False"
| "Zero (VInt w) = VInt 0"
| "Zero (VInt8 w) = VInt8 0"
| "Zero (VInt16 w) = VInt16 0"
| "Zero (VInt32 w) = VInt32 0"
| "Zero (VInt64 w) = VInt64 0"
| "Zero (VUint w) = VUint 0"
| "Zero (VUint8 w) = VUint8 0"
| "Zero (VUint16 w) = VUint16 0"
| "Zero (VUint32 w) = VUint32 0"
| "Zero (VUint64 w) = VUint64 0"
| "Zero (VString s) = VString []"
| "Zero (VTime t) = VTime zeroTime"
| "Zero (VNil ty) = VNil ty"
| "Zero (VPtr v) = VNil (TPtr (typeOf v))"
| "Zero (VSlice ty xs) = VNil (TSlice ty)"
| "Zero (VStruct n fs c) = VStruct n (ZeroFields fs) c"
| "ZeroFields [] = []"
| "ZeroFields (Field t v # fs) = Field t (Zero v) # ZeroFields fs"

fun DeepEqual :: "Value \<Rightarrow> Value \<Rightarrow> bool"
and DeepEqualList :: "Value list \<Rightarrow> Value list \<Rightarrow> bool"
and DeepEqualFields :: "Field list \<Rightarrow> Field list \<Rightarrow> bool" where
  "DeepEqual (VBool a) y = (case y of VBool b \<Rightarrow> a = b | _ \<Rightarrow> False)"
| "DeepEqual (VInt a) y = (case y of VInt b \<Rightarrow> a = b | _ \<Rightarrow> False)"
| "DeepEqual (VInt8 a) y = (case y of VInt8 b \<Rightarrow> a = b | _ \<Rightarrow> False)"
| "DeepEqual (VInt16 a) y = (case y of VInt16 b \<Rightarrow> a = b | _ \<Rightarrow> False)"
| "DeepEqual (VInt32 a) y = (case y of VInt32 b \<Rightarrow> a = b | _ \<Rightarrow> False)"
| "DeepEqual (VInt64 a) y = (case y of VInt64 b \<Rightarrow> a = b | _ \<Rightarrow> False)"
| "DeepEqual (VUint a) y = (case y of VUint b \<Rightarrow> a = b | _ \<Rightarrow> False)"
| "DeepEqual (VUint8 a) y = (case y of VUint8 b \<Rightarrow> a = b | _ \<Rightarrow> False)"
| "DeepEqual (VUint16 a) y = (case y of VUint16 b \<Rightarrow> a = b | _ \<Rightarrow> False)"
| "DeepEqual (VUint32 a) y = (case y of VUint32 b \<Rightarrow> a = b | _ \<Rightarrow> False)"
| "DeepEqual (VUint64 a) y = (case y of VUint64 b \<Rightarrow> a = b | _ \<Rightarrow> False)"
| "DeepEqual (VString a) y = (case y of VString b \<Rightarrow> a = b | _ \<Rightarrow> False)"
| "DeepEqual (VTime a) y = (case y of VTime b \<Rightarrow> a = b | _ \<Rightarrow> False)"
| "DeepEqual (VNil ta) y = (case y of VNil tb \<Rightarrow> ta = tb | _ \<Rightarrow> False)"
| "DeepEqual (VPtr a) y = (case y of VPtr b \<Rightarrow> DeepEqual a b | _ \<Rightarrow> False)"
| "DeepEqual (VSlice ta xs) y =
     (case y of VSlice tb ys \<Rightarrow> ta = tb \<and> DeepEqualList xs ys | _ \<Rightarrow> False)"
| "DeepEqual (VStruct na fs ca) y =
     (case y of VStruct nb gs cb \<Rightarrow> na = nb \<and> DeepEqualFields fs gs | _ \<Rightarrow> False)"
| "DeepEqualList [] ys = (case ys of [] \<Rightarrow> True | y # ys' \<Rightarrow> False)"
| "DeepEqualList (x # xs) ys =
     (case ys of [] \<Rightarrow> False | y # ys' \<Rightarrow> DeepEqual x y \<and> DeepEqualList xs ys')"
| "DeepEqualFields [] gs = (case gs of [] \<Rightarrow> True | g # gs' \<Rightarrow> False)"
| "DeepEqualFields (Field t v # fs) gs =
     (case gs of [] \<Rightarrow> False | Field u w # gs' \<Rightarrow> DeepEqual v w \<and> DeepEqualFields fs gs')"

text \<open>
  The value of a timestamp attribute (lines 195 to 201 and 217 to 223): the ISO-8601
  layout first, then RFC 3339, else the Unix seconds.
\<close>

definition timeAttribute :: "Modifiers \<Rightarrow> Time \<Rightarrow> Value" where
  "timeAttribute m t =
     (if iso8601 m then VString (Format (UTC t) iso8601TimeFormat)
      else if rfc3339 m then VString (Format (UTC t) RFC3339)
      else VInt64 (Unix t))"

text \<open>
  The \<^verbatim>\<open>attr\<close> branch (lines 168 to 240). The attribute map is made before the value
  is looked at; every \<^verbatim>\<open>continue\<close> of the source returns the node as it is then.
\<close>

definition visitAttribute :: "string list \<Rightarrow> Value \<Rightarrow> Node \<Rightarrow> error + Node" where
  "visitAttribute args fieldValue node0 =
     (let m = attrModifiers args;
          node = makeAttributes node0
      in if typeOf fieldValue = TTime then
           (case fieldValue of
              VTime t \<Rightarrow>
                if IsZero t then Inr node
                else putAttribute (args ! 1) (Val (timeAttribute m t)) node
            | _ \<Rightarrow> Inl Panic)
         else if typeOf fieldValue = TPtr TTime then
           (case fieldValue of
              VNil ty \<Rightarrow>
                if omitEmpty m then Inr node else putAttribute (args ! 1) Null node
            | VPtr (VTime tm) \<Rightarrow>
                if IsZero tm \<and> omitEmpty m then Inr node
                else putAttribute (args ! 1) (Val (timeAttribute m tm)) node
            | _ \<Rightarrow> Inl Panic)
         else
           (let emptyValue = Zero fieldValue
            in if omitEmpty m \<and> DeepEqual fieldValue emptyValue then Inr node
               else putAttribute (args ! 1) (Val fieldValue) node))"

text \<open>
  The head of the \<^verbatim>\<open>relation\<close> branch (lines 242 to 254): the modifier is read from
  the third part of the tag only, and \<^verbatim>\<open>IsNil\<close> is called only for a field that is no
  slice when the modifier is set.
\<close>

definition relOmitEmpty :: "string list \<Rightarrow> bool" where
  "relOmitEmpty args = (if length args > 2 then args ! 2 = annotationOmitEmpty else False)"

definition relOmitted :: "bool \<Rightarrow> Value \<Rightarrow> error + bool" where
  "relOmitted oe fieldValue =
     (let isSlice = (kindOf (typeOf fieldValue) = KSlice)
      in if \<not> oe then Inr False
         else if isSlice then Inr (Len fieldValue < 1)
         else IsNil fieldValue)"

text \<open>The links and meta of a relationship, from the owning model (lines 260 to 268).\<close>

definition relLinksOf :: "Caps \<Rightarrow> string \<Rightarrow> Links option" where
  "relLinksOf caps name = (case jsonapiRelationshipLinks caps of None \<Rightarrow> None | Some f \<Rightarrow> map_of f name)"

definition relMetaOf :: "Caps \<Rightarrow> string \<Rightarrow> Meta option" where
  "relMetaOf caps name = (case jsonapiRelationshipMeta caps of None \<Rightarrow> None | Some f \<Rightarrow> map_of f name)"

text \<open>
  The sideload loop of a to-many relationship (lines 285 to 289): every node is
  registered and replaced by its reference.
\<close>

fun includeAll :: "Registry option \<Rightarrow> Node list \<Rightarrow> error + (Node list \<times> Registry option)" where
  "includeAll included [] = Inr ([], included)"
| "includeAll included (n # ns) =
     (case appendIncluded included n of
        Inl e \<Rightarrow> Inl e
      | Inr included' \<Rightarrow>
          (case includeAll included' ns of
             Inl e \<Rightarrow> Inl e
           | Inr (shallowNodes, included'') \<Rightarrow> Inr (toShallowNode n # shallowNodes, included'')))"

text \<open>The end of \<^verbatim>\<open>visitModelNode\<close> (lines 344 to 356): links are validated, then set;
  meta is set.\<close>

definition finishNode :: "Caps \<Rightarrow> Node \<Rightarrow> error + Node" where
  "finishNode caps node =
     (case (case jsonapiLinks caps of
              None \<Rightarrow> Inr node
            | Some jl \<Rightarrow> (case validate jl of Some er \<Rightarrow> Inl er | None \<Rightarrow> Inr (setLinks (Some jl) node))) of
        Inl er \<Rightarrow> Inl er
      | Inr node' \<Rightarrow>
          (case jsonapiMeta caps of
             None \<Rightarrow> Inr node'
           | Some jm \<Rightarrow> Inr (setMeta (Some jm) node')))"

section \<open>The traversal\<close>

text \<open>
  The body of the loop over the fields (lines 95 to 337), up to the point where it
  recurses. \<open>Done\<close> is a field settled without recursion: \<open>Inr\<close> is the node the loop goes
  on with (after a \<^verbatim>\<open>continue\<close> or at the end of the body), \<open>Inl\<close> is a \<^verbatim>\<open>break\<close> with
  \<^verbatim>\<open>er\<close> set, or a panic. \<open>ToMany\<close> and \<open>ToOne\<close> are a relationship whose targets are
  visited next; they carry the parts of the tag.
\<close>

datatype Dispatch = Done "error + Node" | ToMany "string list" | ToOne "string list"

text \<open>
  The \<^verbatim>\<open>relation\<close> branch before the recursion (lines 241 to 258 and 299 to 306): the
  omission, the kind of the relationship, and the nil target of a to-one relationship,
  stored as an entry with null data and neither links nor meta.
\<close>

definition visitRelation :: "string list \<Rightarrow> Value \<Rightarrow> Node \<Rightarrow> Dispatch" where
  "visitRelation args fieldValue node =
     (case relOmitted (relOmitEmpty args) fieldValue of
        Inl er \<Rightarrow> Done (Inl er)
      | Inr True \<Rightarrow> Done (Inr node)
      | Inr False \<Rightarrow>
          if kindOf (typeOf fieldValue) = KSlice then ToMany args
          else
            (case IsNil fieldValue of
               Inl er \<Rightarrow> Done (Inl er)
             | Inr True \<Rightarrow>
                 Done (putRelationship (args ! 1) (RelationshipOneNode None None None)
                         (makeRelationships node))
             | Inr False \<Rightarrow> ToOne args))"

text \<open>The tag of the field, its part count and its role (lines 96 to 118, 163, 168, 241, 334).\<close>

definition dispatchField :: "string \<Rightarrow> Value \<Rightarrow> Node \<Rightarrow> Dispatch" where
  "dispatchField tag fieldValue node =
     (if tag = [] then Done (Inr node)
      else
        (let args = Split tag annotationSeperator
         in if length args < 1 then Done (Inl ErrBadJSONAPIStructTag)
            else
              (let annotation = args ! 0
               in if (annotation = annotationClientID \<and> length args \<noteq> 1)
                     \<or> (annotation \<noteq> annotationClientID \<and> length args < 2)
                  then Done (Inl ErrBadJSONAPIStructTag)
                  else if annotation = annotationPrimary then
                    Done (visitPrimary args fieldValue node)
                  else if annotation = annotationClientID then
                    Done (Inr (visitClientID fieldValue node))
                  else if annotation = annotationAttribute then
                    Done (visitAttribute args fieldValue node)
                  else if annotation = annotationRelation then
                    visitRelation args fieldValue node
                  else Done (Inl ErrBadJSONAPIStructTag))))"

text \<open>
  A to-many relationship after its targets are built (lines 281 to 298): in sideload
  mode every node is registered and its reference stored, else the nodes themselves.
\<close>

definition storeToMany ::
    "Caps \<Rightarrow> bool \<Rightarrow> string list \<Rightarrow> Node list \<Rightarrow> Registry option \<Rightarrow> Node
      \<Rightarrow> error + (Node \<times> Registry option)" where
  "storeToMany caps sideload args nodes included node =
     (let relLinks = relLinksOf caps (args ! 1);
          relMeta = relMetaOf caps (args ! 1)
      in if sideload then
           (case includeAll included nodes of
              Inl er \<Rightarrow> Inl er
            | Inr (shallowNodes, included') \<Rightarrow>
                (case putRelationship (args ! 1)
                        (RelationshipManyNode shallowNodes relLinks relMeta) node of
                   Inl er \<Rightarrow> Inl er
                 | Inr node' \<Rightarrow> Inr (node', included')))
         else
           (case putRelationship (args ! 1) (RelationshipManyNode nodes relLinks relMeta) node of
              Inl er \<Rightarrow> Inl er
            | Inr node' \<Rightarrow> Inr (node', included)))"

text \<open>
  A to-one relationship after its target is built (lines 318 to 331). In sideload mode
  the node is registered and its reference stored; registering the nil node panics.
\<close>

definition storeToOne ::
    "Caps \<Rightarrow> bool \<Rightarrow> string list \<Rightarrow> Node option \<Rightarrow> Registry option \<Rightarrow> Node
      \<Rightarrow> error + (Node \<times> Registry option)" where
  "storeToOne caps sideload args rel included node =
     (let relLinks = relLinksOf caps (args ! 1);
          relMeta = relMetaOf caps (args ! 1)
      in if sideload then
           (case rel of
              None \<Rightarrow> Inl Panic
            | Some r \<Rightarrow>
                (case appendIncluded included r of
                   Inl er \<Rightarrow> Inl er
                 | Inr included' \<Rightarrow>
                     (case putRelationship (args ! 1)
                             (RelationshipOneNode (Some (toShallowNode r)) relLinks relMeta)
                             node of
                        Inl er \<Rightarrow> Inl er
                      | Inr node' \<Rightarrow> Inr (node', included'))))
         else
           (case putRelationship (args ! 1) (RelationshipOneNode rel relLinks relMeta) node of
              Inl er \<Rightarrow> Inl er
            | Inr node' \<Rightarrow> Inr (node', included)))"

text \<open>
  \<^verbatim>\<open>visitModelNode\<close> (lines 81 to 357). The registry behind the pointer
  \<^verbatim>\<open>included\<close> is passed in and returned. \<open>visitField\<close> is the body of the loop for one
  field and \<open>visitFields\<close> the loop; a model that is no pointer to a struct makes the
  \<^verbatim>\<open>reflect\<close> calls at the head of the function panic.

  Modelled from the spec: \<^verbatim>\<open>visitModelNodeRelationships\<close> is not among the sources. It
  builds a node for every element of the collection, in order, skips an element that
  produces no node, and stops at the first error.
\<close>

function (sequential) visitModelNode ::
    "Value \<Rightarrow> Registry option \<Rightarrow> bool \<Rightarrow> error + (Node option \<times> Registry option)"
and visitFields ::
    "Caps \<Rightarrow> bool \<Rightarrow> Field list \<Rightarrow> Node \<Rightarrow> Registry option
      \<Rightarrow> error + (Node \<times> Registry option)"
and visitField ::
    "Caps \<Rightarrow> bool \<Rightarrow> Field \<Rightarrow> Node \<Rightarrow> Registry option
      \<Rightarrow> error + (Node \<times> Registry option)"
and visitModelNodeRelationships ::
    "Value \<Rightarrow> Registry option \<Rightarrow> bool \<Rightarrow> error + (Node list \<times> Registry option)"
and visitElems ::
    "Value list \<Rightarrow> Registry option \<Rightarrow> bool \<Rightarrow> error + (Node list \<times> Registry option)"
where
  "visitModelNode model included sideload =
     (case model of
        VNil ty \<Rightarrow> Inr (None, included)
      | VPtr (VStruct n fs caps) \<Rightarrow>
          (case visitFields caps sideload fs newNode included of
             Inl er \<Rightarrow> Inl er
           | Inr (node, included') \<Rightarrow>
               (case finishNode caps node of
                  Inl er \<Rightarrow> Inl er
                | Inr node' \<Rightarrow> Inr (Some node', included')))
      | _ \<Rightarrow> Inl Panic)"
| "visitFields caps sideload [] node included = Inr (node, included)"
| "visitFields caps sideload (f # fs) node included =
     (case visitField caps sideload f node included of
        Inl er \<Rightarrow> Inl er
      | Inr (node', included') \<Rightarrow> visitFields caps sideload fs node' included')"
| "visitField caps sideload (Field tag fieldValue) node included =
     (case dispatchField tag fieldValue node of
        Done r \<Rightarrow> (case r of Inl er \<Rightarrow> Inl er | Inr node' \<Rightarrow> Inr (node', included))
      | ToMany args \<Rightarrow>
          (case visitModelNodeRelationships fieldValue included sideload of
             Inl err \<Rightarrow> Inl err
           | Inr (nodes, included') \<Rightarrow>
               storeToMany caps sideload args nodes included' (makeRelationships node))
      | ToOne args \<Rightarrow>
          (case visitModelNode fieldValue included sideload of
             Inl err \<Rightarrow> Inl err
           | Inr (rel, included') \<Rightarrow>
               storeToOne caps sideload args rel included' (makeRelationships node)))"
| "visitModelNodeRelationships models included sideload =
     (case models of
        VSlice ty xs \<Rightarrow> visitElems xs included sideload
      | VNil ty \<Rightarrow> Inr ([], included)
      | _ \<Rightarrow> Inl Panic)"
| "visitElems [] included sideload = Inr ([], included)"
| "visitElems (x # xs) included sideload =
     (case visitModelNode x included sideload of
        Inl err \<Rightarrow> Inl err
      | Inr (node, included') \<Rightarrow>
          (case visitElems xs included' sideload of
             Inl err \<Rightarrow> Inl err
           | Inr (nodes, included'') \<Rightarrow>
               Inr ((case node of None \<Rightarrow> [] | Some n \<Rightarrow> [n]) @ nodes, included'')))"
  by pat_completeness auto
termination
  by (relation "measure (\<lambda>x. case x of
          Inl (Inl (v, included, sideload)) \<Rightarrow> size v
        | Inl (Inr (caps, sideload, fs, node, included)) \<Rightarrow> size_list size fs
        | Inr (Inl (caps, sideload, f, node, included)) \<Rightarrow> size f
        | Inr (Inr (Inl (v, included, sideload))) \<Rightarrow> size v
        | Inr (Inr (Inr (xs, included, sideload))) \<Rightarrow> size_list size xs)") auto

declare visitModelNode.simps [simp del]
declare visitModelNodeRelationships.simps [simp del]
declare visitField.simps [simp del]

section \<open>The entry points\<close>

text \<open>
  \<^verbatim>\<open>marshalOne\<close>, \<^verbatim>\<open>marshalMany\<close> and \<^verbatim>\<open>MarshalOnePayloadEmbedded\<close>. The embedded entry
  point is taken up to the payload it hands to the JSON encoder.
\<close>

definition marshalOne :: "Value \<Rightarrow> error + OnePayload" where
  "marshalOne model =
     (case visitModelNode model (Some []) True of
        Inl err \<Rightarrow> Inl err
      | Inr (rootNode, included) \<Rightarrow>
          (case nodeMapValues included of
             Inl err \<Rightarrow> Inl err
           | Inr vals \<Rightarrow>
               Inr \<lparr>oneData = rootNode, oneIncluded = Some vals, oneLinks = None, oneMeta = None\<rparr>))"



definition MarshalOnePayloadEmbedded :: "Value \<Rightarrow> error + OnePayload" where
  "MarshalOnePayloadEmbedded model =
     (case visitModelNode model None False of
        Inl err \<Rightarrow> Inl err
      | Inr (rootNode, included) \<Rightarrow>
          Inr \<lparr>oneData = rootNode, oneIncluded = None, oneLinks = None, oneMeta = None\<rparr>)"

section \<open>What the specification says of a primary key\<close>

text \<open>
  The canonical decimal string of an integer: a minus sign for a negative number, then
  the digits of its magnitude. \<open>integerKey\<close> is the number an integer key stands for:
  a signed type is read as signed, an unsigned type as unsigned. \<open>primaryKind\<close> is the
  kind the switch of the \<^verbatim>\<open>primary\<close> branch looks at.
\<close>

definition decimalString :: "int \<Rightarrow> string" where
  "decimalString i = (if i < 0 then CHR ''-'' # formatBits (nat (- i)) else formatBits (nat i))"

definition integerKey :: "Value \<Rightarrow> int option" where
  "integerKey v = (case v of
       VInt x \<Rightarrow> Some (sint x) | VInt8 x \<Rightarrow> Some (sint x) | VInt16 x \<Rightarrow> Some (sint x)
     | VInt32 x \<Rightarrow> Some (sint x) | VInt64 x \<Rightarrow> Some (sint x)
     | VUint x \<Rightarrow> Some (uint x) | VUint8 x \<Rightarrow> Some (uint x) | VUint16 x \<Rightarrow> Some (uint x)
     | VUint32 x \<Rightarrow> Some (uint x) | VUint64 x \<Rightarrow> Some (uint x)
     | _ \<Rightarrow> None)"

definition primaryKind :: "Value \<Rightarrow> Kind" where
  "primaryKind fieldValue =
     (if kindOf (typeOf fieldValue) = KPtr then kindOf (Elem (typeOf fieldValue))
      else kindOf (typeOf fieldValue))"

text \<open>
  The omission rules of an attribute, as the specification lists them: a zero timestamp
  is always omitted; an absent optional timestamp, and a present one that is zero, are
  omitted under \<^verbatim>\<open>omitempty\<close>; any other value is omitted under \<^verbatim>\<open>omitempty\<close> when it
  equals the zero value of its type.
\<close>

definition omitsAttribute :: "Modifiers \<Rightarrow> Value \<Rightarrow> bool" where
  "omitsAttribute m v =
     (case v of
        VTime t \<Rightarrow> IsZero t
      | VNil ty \<Rightarrow> omitEmpty m
      | VPtr (VTime t) \<Rightarrow> IsZero t \<and> omitEmpty m
      | _ \<Rightarrow> omitEmpty m \<and> DeepEqual v (Zero v))"

text \<open>
  The UTC timestamp of ISO 8601 and RFC 3339, \<^verbatim>\<open>YYYY-MM-DDThh:mm:ssZ\<close>, of an instant.
\<close>

definition utcTimestamp :: "Time \<Rightarrow> string" where
  "utcTimestamp t =
     (let (y, m, d) = civilFromDays (unixSec t div 86400);
          s = unixSec t mod 86400
      in zeroPad 4 y @ ''-'' @ zeroPad 2 m @ ''-'' @ zeroPad 2 d @ ''T''
         @ zeroPad 2 (s div 3600) @ '':'' @ zeroPad 2 (s mod 3600 div 60) @ '':''
         @ zeroPad 2 (s mod 60) @ ''Z'')"

text \<open>
  What a relationship holds. \<open>isShallow\<close>: a node that is a reference, with no
  attributes, relationships, links or meta. \<open>references\<close>: the nodes in the data of the
  relationships of a node. \<open>refsIn K\<close>: every such node is a reference whose (type, id)
  is among the keys \<open>K\<close>. \<open>regOK\<close>: the registry during a sideloading traversal; no key
  twice, every node under its own key, and the references of every stored node among
  the keys of the registry.
\<close>

definition isShallow :: "Node \<Rightarrow> bool" where
  "isShallow n \<longleftrightarrow>
     Attributes n = None \<and> Relationships n = None \<and> Links n = None \<and> Meta n = None"

fun relData :: "Relationship \<Rightarrow> Node list" where
  "relData (RelationshipOneNode d l m) = (case d of None \<Rightarrow> [] | Some n \<Rightarrow> [n])"
| "relData (RelationshipManyNode ds l m) = ds"

definition references :: "Node \<Rightarrow> Node list" where
  "references n =
     (case Relationships n of None \<Rightarrow> [] | Some rl \<Rightarrow> concat (map (\<lambda>e. relData (snd e)) rl))"

definition refsIn :: "(string \<times> string) set \<Rightarrow> Node \<Rightarrow> bool" where
  "refsIn K n \<longleftrightarrow> (\<forall>d \<in> set (references n). isShallow d \<and> nodeKey d \<in> K)"


section \<open>Decimal strings\<close>

lemma Split_tag_nonempty: "Split tag annotationSeperator = a # b # rest \<Longrightarrow> tag \<noteq> []"
  by (auto simp: Split_def annotationSeperator_def)

lemma visitField_Done:
  "dispatchField tag v node = Done r \<Longrightarrow>
   visitField caps sl (Field tag v) node inc = (case r of Inl e \<Rightarrow> Inl e | Inr n \<Rightarrow> Inr (n, inc))"
  by (simp add: visitField.simps)

lemma dispatchField_primary:
  assumes "Split tag annotationSeperator = annotationPrimary # ty # rest"
  shows "dispatchField tag v node = Done (visitPrimary (annotationPrimary # ty # rest) v node)"
proof -
  have "tag \<noteq> []" using assms by (rule Split_tag_nonempty)
  moreover have "annotationPrimary \<noteq> annotationClientID"
    by (simp add: annotationPrimary_def annotationClientID_def)
  ultimately show ?thesis using assms by (simp add: dispatchField_def Let_def)
qed

lemma digitVal_digitChar: "d < 10 \<Longrightarrow> digitVal (digitChar d) = d"
  by (simp add: digitVal_def digitChar_def)

lemma parseDigits_snoc: "parseDigits (s @ [c]) = 10 * parseDigits s + digitVal c"
  by (simp add: parseDigits_def)

lemma parseDigits_formatBits: "parseDigits (formatBits n) = n"
proof (induction n rule: formatBits.induct)
  case (1 n)
  show ?case
  proof (cases "n < 10")
    case True
    then show ?thesis
      by (subst formatBits.simps) (simp add: parseDigits_def digitVal_digitChar)
  next
    case False
    then have "parseDigits (formatBits (n div 10)) = n div 10" using 1 by simp
    with False show ?thesis
      by (subst formatBits.simps) (simp add: parseDigits_snoc digitVal_digitChar)
  qed
qed

lemma digitChar_not_minus: "d < 10 \<Longrightarrow> digitChar d \<noteq> CHR ''-''"
proof
  assume d: "d < 10" and "digitChar d = CHR ''-''"
  then have "(of_char (digitChar d) :: nat) = of_char (CHR ''-'')" by simp
  with d show False by (simp add: digitChar_def)
qed

lemma formatBits_head: "\<exists>c cs. formatBits n = c # cs \<and> c \<noteq> CHR ''-''"
proof (induction n rule: formatBits.induct)
  case (1 n)
  show ?case
  proof (cases "n < 10")
    case True
    then show ?thesis
      by (subst formatBits.simps) (simp add: digitChar_not_minus)
  next
    case False
    then obtain c cs where "formatBits (n div 10) = c # cs" "c \<noteq> CHR ''-''"
      using 1 by blast
    with False show ?thesis
      by (subst formatBits.simps) simp
  qed
qed

lemma parseDecimal_formatBits: "parseDecimal (formatBits n) = int n"
proof -
  obtain c cs where "formatBits n = c # cs" "c \<noteq> CHR ''-''"
    using formatBits_head by blast
  then show ?thesis
    using parseDigits_formatBits [of n] by (simp add: parseDecimal_def)
qed

lemma parseDecimal_FormatUint: "parseDecimal (FormatUint i) = uint i"
  by (simp add: FormatUint_def parseDecimal_formatBits)

lemma parseDecimal_FormatInt: "parseDecimal (FormatInt i) = sint i"
proof (cases "sint i < 0")
  case True
  then show ?thesis
    by (simp add: FormatInt_def parseDecimal_def parseDigits_formatBits)
next
  case False
  then show ?thesis
    by (simp add: FormatInt_def parseDecimal_formatBits)
qed

lemma parseDecimal_decimalString: "parseDecimal (decimalString i) = i"
proof (cases "i < 0")
  case True
  then show ?thesis
    by (simp add: decimalString_def parseDecimal_def parseDigits_formatBits)
next
  case False
  then show ?thesis
    by (simp add: decimalString_def parseDecimal_formatBits)
qed

lemma FormatInt_decimal: "FormatInt x = decimalString (sint x)"
  by (simp add: FormatInt_def decimalString_def)

lemma FormatUint_decimal: "FormatUint x = decimalString (uint x)"
  by (simp add: FormatUint_def decimalString_def)

lemma primaryID_integer:
  assumes "integerKey v = Some i"
  shows "primaryID (kindOf (typeOf v)) (Some v) = Inr (decimalString i)"
  using assms
  by (cases v)
     (simp_all add: integerKey_def primaryID_def FormatInt_decimal FormatUint_decimal
        sint_up_scast uint_up_ucast is_up)

lemma integerKey_not_pointer: "integerKey v = Some i \<Longrightarrow> kindOf (typeOf v) \<noteq> KPtr"
  by (cases v) (simp_all add: integerKey_def)

lemma visitPrimary_integer:
  assumes "integerKey v = Some i" and "fieldValue = v \<or> fieldValue = VPtr v"
  shows "visitPrimary args fieldValue node = Inr (setType (args ! 1) (setID (decimalString i) node))"
  using assms primaryID_integer [OF assms(1)] integerKey_not_pointer [OF assms(1)]
  by (auto simp: visitPrimary_def)

lemma visitPrimary_string:
  assumes "fieldValue = VString s \<or> fieldValue = VPtr (VString s)"
  shows "visitPrimary args fieldValue node = Inr (setType (args ! 1) (setID s node))"
  using assms by (auto simp: visitPrimary_def primaryID_def)

lemma visitPrimary_unsupported:
  assumes "primaryKind fieldValue \<notin> {KString, KInt, KInt8, KInt16, KInt32, KInt64,
             KUint, KUint8, KUint16, KUint32, KUint64}"
  shows "visitPrimary args fieldValue node = Inl ErrBadJSONAPIID"
  using assms
  by (cases "primaryKind fieldValue")
     (auto simp: visitPrimary_def primaryKind_def primaryID_def)

lemma visitField_primary:
  assumes "Split tag annotationSeperator = annotationPrimary # ty # rest"
  shows "visitField caps sl (Field tag v) node inc =
           (case visitPrimary (annotationPrimary # ty # rest) v node of
              Inl e \<Rightarrow> Inl e | Inr n \<Rightarrow> Inr (n, inc))"
  by (simp add: visitField_Done [OF dispatchField_primary [OF assms]])

lemma ID_setType_setID: "ID (setType ty (setID i node)) = i"
  by (cases node) simp

lemma Type_setType_setID: "Type (setType ty (setID i node)) = ty"
  by (cases node) simp

section \<open>Primary keys\<close>

text \<open>
  Claim C10. The primary-key switch also takes Go's \<^verbatim>\<open>int\<close> and \<^verbatim>\<open>uint\<close>: a field of
  one of these types, or a pointer to one, gives the node the decimal string of the
  number as its id (read back, the string is the number) and the type named by the
  tag; it is not rejected.
\<close>

theorem machine_width_keys_accepted:
  assumes "Split tag annotationSeperator = annotationPrimary # ty # rest"
      and "v = VInt x \<and> i = sint x \<or> v = VUint x \<and> i = uint x"
      and "fieldValue = v \<or> fieldValue = VPtr v"
  shows "\<exists>node'. visitField caps sl (Field tag fieldValue) node inc = Inr (node', inc)
           \<and> ID node' = decimalString i \<and> parseDecimal (ID node') = i \<and> Type node' = ty"
proof -
  have "integerKey v = Some i" using assms(2) by (auto simp: integerKey_def)
  then have "visitPrimary (annotationPrimary # ty # rest) fieldValue node
      = Inr (setType ty (setID (decimalString i) node))"
    using assms(3) visitPrimary_integer by fastforce
  then show ?thesis
    by (simp add: visitField_primary [OF assms(1)] ID_setType_setID Type_setType_setID
        parseDecimal_decimalString)
qed

theorem machine_width_keys_accepted_witness:
  "\<exists>node'. visitField noCaps True (Field ''primary,w'' (VInt (- 7))) newNode (Some [])
              = Inr (node', Some [])
     \<and> ID node' = ''-7'' \<and> parseDecimal (ID node') = - 7 \<and> Type node' = ''w''"
proof -
  have a: "Split ''primary,w'' annotationSeperator = annotationPrimary # ''w'' # []"
    by code_simp
  have b: "VInt (- 7) = VInt (- 7) \<and> (- 7 :: int) = sint (- 7 :: 64 word)
      \<or> VInt (- 7) = VUint (- 7) \<and> (- 7 :: int) = uint (- 7 :: 64 word)"
    by simp
  have c: "decimalString (- 7) = ''-7''" by code_simp
  show ?thesis
    using machine_width_keys_accepted [OF a b, of "VInt (- 7)" noCaps True newNode "Some []"] c
    by simp
qed

text \<open>
  Claim C8. A primary-key field that is a nil pointer to a supported kind: the type
  assertion of the switch is applied to the invalid value \<^verbatim>\<open>reflect.Indirect\<close> returns,
  and the traversal panics instead of returning an error.
\<close>

theorem nil_pointer_key_panics:
  "visitModelNode (VPtr (VStruct ''W'' [Field ''primary,w'' (VNil (TPtr TString))] noCaps))
     (Some []) True = Inl Panic"
  by code_simp

section \<open>Malformed metadata\<close>

lemma visitFields_append:
  "visitFields caps sl (pre @ post) node inc =
     (case visitFields caps sl pre node inc of
        Inl e \<Rightarrow> Inl e
      | Inr (node', inc') \<Rightarrow> visitFields caps sl post node' inc')"
  by (induction pre arbitrary: node inc) (auto split: sum.splits)

lemma visitModelNode_struct:
  "visitModelNode (VPtr (VStruct n fs caps)) inc sl =
     (case visitFields caps sl fs newNode inc of
        Inl er \<Rightarrow> Inl er
      | Inr (node, inc') \<Rightarrow>
          (case finishNode caps node of
             Inl er \<Rightarrow> Inl er
           | Inr node' \<Rightarrow> Inr (Some node', inc')))"
  by (simp add: visitModelNode.simps)

lemma visitModelNode_field_error:
  assumes "visitFields caps sl pre newNode inc = Inr (node1, inc1)"
      and "visitField caps sl f node1 inc1 = Inl e"
  shows "visitModelNode (VPtr (VStruct n (pre @ f # post) caps)) inc sl = Inl e"
  using assms by (simp add: visitModelNode_struct visitFields_append)

lemma visitFields_bad_field:
  assumes "\<And>node inc. \<exists>e. visitField caps sl f node inc = Inl e"
  shows "\<exists>e. visitFields caps sl (pre @ f # post) node inc = Inl e"
proof (cases "visitFields caps sl pre node inc")
  case (Inl e)
  then show ?thesis by (simp add: visitFields_append)
next
  case (Inr p)
  obtain node1 inc1 where p: "p = (node1, inc1)" by (cases p)
  obtain e where "visitField caps sl f node1 inc1 = Inl e" using assms by blast
  with Inr p show ?thesis by (simp add: visitFields_append)
qed

lemma Split_nonempty: "Split tag annotationSeperator \<noteq> []"
proof -
  have "splitFrom cur s sep \<noteq> []" for cur s sep
    by (induction cur s sep rule: splitFrom.induct) auto
  then show ?thesis by (simp add: Split_def annotationSeperator_def)
qed

lemma dispatchField_malformed:
  assumes "tag \<noteq> []" and "args = Split tag annotationSeperator"
      and "(args ! 0 = annotationClientID \<and> length args \<noteq> 1)
         \<or> (args ! 0 \<noteq> annotationClientID \<and> length args < 2)
         \<or> args ! 0 \<notin> {annotationPrimary, annotationClientID, annotationAttribute,
               annotationRelation}"
  shows "dispatchField tag v node = Done (Inl ErrBadJSONAPIStructTag)"
  using assms by (auto simp: dispatchField_def Let_def)

text \<open>
  Claim C6. A tag whose role is \<^verbatim>\<open>client-id\<close> and that has more than one part, a tag
  of another role with fewer than two parts, or a tag whose role is none of the four
  keywords: the loop body stops with the malformed-metadata error at that field; the
  traversal of a model with such a field returns that error when the fields before it
  were visited without error, and in every case it returns an error and no node.
\<close>

theorem malformed_metadata_fails:
  assumes "tag \<noteq> []" and "args = Split tag annotationSeperator"
      and "(args ! 0 = annotationClientID \<and> length args \<noteq> 1)
         \<or> (args ! 0 \<noteq> annotationClientID \<and> length args < 2)
         \<or> args ! 0 \<notin> {annotationPrimary, annotationClientID, annotationAttribute,
               annotationRelation}"
  shows "visitField caps sl (Field tag v) node inc = Inl ErrBadJSONAPIStructTag
       \<and> (visitFields caps sl pre newNode inc0 = Inr (node, inc) \<longrightarrow>
            visitModelNode (VPtr (VStruct n (pre @ Field tag v # post) caps)) inc0 sl
              = Inl ErrBadJSONAPIStructTag)
       \<and> (\<exists>e. visitModelNode (VPtr (VStruct n (pre @ Field tag v # post) caps)) inc0 sl = Inl e)"
proof -
  have step: "visitField caps sl (Field tag v) node' inc' = Inl ErrBadJSONAPIStructTag"
    for node' inc'
    by (simp add: visitField_Done [OF dispatchField_malformed [OF assms]])
  have "\<exists>e. visitFields caps sl (pre @ Field tag v # post) newNode inc0 = Inl e"
    by (rule visitFields_bad_field) (simp add: step)
  then have "\<exists>e. visitModelNode (VPtr (VStruct n (pre @ Field tag v # post) caps)) inc0 sl = Inl e"
    by (auto simp: visitModelNode_struct)
  then show ?thesis
    using step visitModelNode_field_error [of caps sl pre inc0 node inc "Field tag v"]
    by simp
qed

theorem malformed_metadata_fails_witness:
  "visitField noCaps True (Field ''attr'' (VString ''Foo''))
      (Node ''w'' ''42'' [] None None None None) (Some []) = Inl ErrBadJSONAPIStructTag
   \<and> visitModelNode (VPtr (VStruct ''W''
        ([Field ''primary,w'' (VInt64 42)] @ Field ''attr'' (VString ''Foo'') # []) noCaps))
        (Some []) True = Inl ErrBadJSONAPIStructTag"
proof -
  have a: "''attr'' \<noteq> []" by simp
  have b: "[''attr''] = Split ''attr'' annotationSeperator" by code_simp
  have c: "([''attr''] ! 0 = annotationClientID \<and> length [''attr''] \<noteq> 1)
         \<or> ([''attr''] ! 0 \<noteq> annotationClientID \<and> length [''attr''] < 2)
         \<or> [''attr''] ! 0 \<notin> {annotationPrimary, annotationClientID, annotationAttribute,
               annotationRelation}"
    by (simp add: annotationClientID_def)
  have d: "visitFields noCaps True [Field ''primary,w'' (VInt64 42)] newNode (Some [])
      = Inr (Node ''w'' ''42'' [] None None None None, Some [])"
    by code_simp
  show ?thesis
    using malformed_metadata_fails [OF a b c, of noCaps True "VString ''Foo''"
        "Node ''w'' ''42'' [] None None None None" "Some []"
        "[Field ''primary,w'' (VInt64 42)]" "Some []" "''W''" "[]"] d
    by blast
qed

section \<open>Relationships with a nil target\<close>

lemma dispatchField_relation:
  assumes "Split tag annotationSeperator = annotationRelation # name # mods"
  shows "dispatchField tag v node = visitRelation (annotationRelation # name # mods) v node"
proof -
  have "tag \<noteq> []" using assms by (rule Split_tag_nonempty)
  moreover have "annotationRelation \<noteq> annotationClientID"
      "annotationRelation \<noteq> annotationPrimary" "annotationRelation \<noteq> annotationAttribute"
    by (simp_all add: annotationPrimary_def annotationClientID_def annotationRelation_def
        annotationAttribute_def)
  ultimately show ?thesis using assms by (simp add: dispatchField_def Let_def)
qed

lemma putRelationship_made:
  "putRelationship k r (makeRelationships node) =
     Inr (Node (Type node) (ID node) (ClientID node) (Attributes node)
            (Some (AList.update k r (case Relationships node of None \<Rightarrow> [] | Some rl \<Rightarrow> rl)))
            (Links node) (Meta node))"
  by (cases node) (simp split: option.splits)

lemma relationship_put:
  assumes "putRelationship k r (makeRelationships node) = Inr node'"
  shows "relationship node' k = Some r"
  using assms by (auto simp: putRelationship_made relationship_def update_conv')

text \<open>
  Claim C4, as amended. A to-one relationship field whose target is nil: when
  \<^verbatim>\<open>omitempty\<close> is the third part of the tag, which is where the relationship branch
  reads it, the node is left as it was, so no key is inserted; in every other case,
  the modifier absent or standing at a later position, the field's name gets an entry
  with null data and neither links nor meta. The witness shows all three on a fresh
  node: an entry with null data without the modifier and with the modifier as fourth
  part, no entry with the modifier as third part.
\<close>

theorem nil_to_one_relationship:
  assumes "Split tag annotationSeperator = annotationRelation # name # mods"
      and "fieldValue = VNil ty" and "kindOf ty \<noteq> KSlice"
  shows "(mods = [] \<or> hd mods \<noteq> annotationOmitEmpty \<longrightarrow>
            (\<exists>node'. visitField caps sl (Field tag fieldValue) node inc = Inr (node', inc)
               \<and> relationship node' name = Some (RelationshipOneNode None None None)))
       \<and> (mods \<noteq> [] \<and> hd mods = annotationOmitEmpty \<longrightarrow>
            visitField caps sl (Field tag fieldValue) node inc = Inr (node, inc))"
proof -
  let ?args = "annotationRelation # name # mods"
  have d: "dispatchField tag v node = visitRelation ?args v node" for v
    by (rule dispatchField_relation [OF assms(1)])
  have absent: "\<not> relOmitEmpty ?args" if "mods = [] \<or> hd mods \<noteq> annotationOmitEmpty"
    using that by (cases mods) (auto simp: relOmitEmpty_def)
  have present: "relOmitEmpty ?args" if "mods \<noteq> []" "hd mods = annotationOmitEmpty"
    using that by (cases mods) (auto simp: relOmitEmpty_def)
  have 1: "\<exists>node'. visitField caps sl (Field tag fieldValue) node inc = Inr (node', inc)
               \<and> relationship node' name = Some (RelationshipOneNode None None None)"
    if "mods = [] \<or> hd mods \<noteq> annotationOmitEmpty"
  proof -
    obtain node' where p: "putRelationship name (RelationshipOneNode None None None)
        (makeRelationships node) = Inr node'"
      by (simp add: putRelationship_made)
    have "dispatchField tag fieldValue node = Done (Inr node')"
      using absent [OF that] assms(2,3) p by (simp add: d visitRelation_def relOmitted_def)
    then have "visitField caps sl (Field tag fieldValue) node inc = Inr (node', inc)"
      by (simp add: visitField_Done)
    with relationship_put [OF p] show ?thesis by blast
  qed
  have 2: "visitField caps sl (Field tag fieldValue) node inc = Inr (node, inc)"
    if "mods \<noteq> []" "hd mods = annotationOmitEmpty"
  proof -
    have "dispatchField tag fieldValue node = Done (Inr node)"
      using present [OF that] assms(2,3) by (simp add: d visitRelation_def relOmitted_def)
    then show ?thesis by (simp add: visitField_Done)
  qed
  from 1 2 show ?thesis by blast
qed

theorem nil_to_one_relationship_witness:
  "(\<exists>node'. visitField noCaps True (Field ''relation,author'' (VNil (TPtr (TStruct ''Author''))))
        newNode (Some []) = Inr (node', Some [])
      \<and> relationship node' ''author'' = Some (RelationshipOneNode None None None))
   \<and> (\<exists>node'. visitField noCaps True
          (Field ''relation,author,links,omitempty'' (VNil (TPtr (TStruct ''Author''))))
          newNode (Some []) = Inr (node', Some [])
      \<and> relationship node' ''author'' = Some (RelationshipOneNode None None None))
   \<and> visitField noCaps True
        (Field ''relation,author,omitempty'' (VNil (TPtr (TStruct ''Author''))))
        newNode (Some []) = Inr (newNode, Some [])
   \<and> relationship newNode ''author'' = None"
proof -
  have a: "Split ''relation,author'' annotationSeperator = annotationRelation # ''author'' # []"
    by code_simp
  have b: "Split ''relation,author,omitempty'' annotationSeperator
      = annotationRelation # ''author'' # [''omitempty'']"
    by code_simp
  have l: "Split ''relation,author,links,omitempty'' annotationSeperator
      = annotationRelation # ''author'' # [''links'', ''omitempty'']"
    by code_simp
  have k: "kindOf (TPtr (TStruct ''Author'')) \<noteq> KSlice" by simp
  have c: "relationship newNode ''author'' = None" by code_simp
  show ?thesis
    using nil_to_one_relationship [OF a refl k, of noCaps True newNode "Some []"]
      nil_to_one_relationship [OF l refl k, of noCaps True newNode "Some []"]
      nil_to_one_relationship [OF b refl k, of noCaps True newNode "Some []"] c
    by (simp add: annotationOmitEmpty_def)
qed

text \<open>
  Claim C4 as stated fails when the modifier is set at a later position of the tag: a
  nil to-one target of a field tagged \<^verbatim>\<open>relation,author,links,omitempty\<close> is not left
  out, its key is inserted with null data.
\<close>

theorem nil_to_one_omitempty_later_counterexample:
  "annotationOmitEmpty
     \<in> set (drop 2 (Split ''relation,author,links,omitempty'' annotationSeperator))
   \<and> visitModelNode
        (VPtr (VStruct ''Post''
           [Field ''primary,posts'' (VInt64 1),
            Field ''relation,author,links,omitempty'' (VNil (TPtr (TStruct ''Author'')))]
           noCaps))
        None False
      = Inr (Some (Node ''posts'' ''1'' [] None
                     (Some [(''author'', RelationshipOneNode None None None)]) None None),
             None)"
  by code_simp

section \<open>Modifiers\<close>

lemma scanModifiers_flags:
  "scanModifiers xs m =
     \<lparr>omitEmpty = (omitEmpty m \<or> annotationOmitEmpty \<in> set xs),
      iso8601 = (iso8601 m \<or> annotationISO8601 \<in> set xs),
      rfc3339 = (rfc3339 m \<or> annotationRFC3339 \<in> set xs)\<rparr>"
proof (induction xs arbitrary: m)
  case Nil
  then show ?case by simp
next
  case (Cons x xs)
  have "annotationOmitEmpty \<noteq> annotationISO8601" "annotationOmitEmpty \<noteq> annotationRFC3339"
      "annotationISO8601 \<noteq> annotationRFC3339"
    by (simp_all add: annotationOmitEmpty_def annotationISO8601_def annotationRFC3339_def)
  then show ?case by (auto simp: Cons.IH)
qed

text \<open>
  Claim C7, as amended. For an attribute, each of the three modifier keywords is set
  exactly when it occurs somewhere among the parts of the tag from the third on, and
  any other keyword there changes nothing. For a relationship, \<^verbatim>\<open>omitempty\<close> is set
  exactly when it is the third part of the tag.
\<close>

theorem modifiers_recognized:
  "attrModifiers args =
     \<lparr>omitEmpty = (annotationOmitEmpty \<in> set (drop 2 args)),
      iso8601 = (annotationISO8601 \<in> set (drop 2 args)),
      rfc3339 = (annotationRFC3339 \<in> set (drop 2 args))\<rparr>
   \<and> relOmitEmpty args = (2 < length args \<and> args ! 2 = annotationOmitEmpty)"
  by (simp add: attrModifiers_def scanModifiers_flags relOmitEmpty_def)

text \<open>
  Claim C7 as stated fails for a relationship: with \<^verbatim>\<open>omitempty\<close> as the fourth part
  of the tag, a nil to-one target is not omitted but stored with null data.
\<close>

theorem relation_omitempty_position_counterexample:
  "annotationOmitEmpty \<in> set (drop 2 (Split ''relation,a,x,omitempty'' annotationSeperator))
   \<and> visitField noCaps True
        (Field ''relation,a,x,omitempty'' (VNil (TPtr (TStruct ''A'')))) newNode (Some [])
      = Inr (Node [] [] [] None (Some [(''a'', RelationshipOneNode None None None)]) None None,
             Some [])"
  by code_simp

section \<open>The attributes map\<close>

lemma dispatchField_attribute:
  assumes "Split tag annotationSeperator = annotationAttribute # name # mods"
  shows "dispatchField tag v node = Done (visitAttribute (annotationAttribute # name # mods) v node)"
proof -
  have "tag \<noteq> []" using assms by (rule Split_tag_nonempty)
  moreover have "annotationAttribute \<noteq> annotationClientID"
      "annotationAttribute \<noteq> annotationPrimary"
    by (simp_all add: annotationPrimary_def annotationClientID_def annotationAttribute_def)
  ultimately show ?thesis using assms by (simp add: dispatchField_def Let_def)
qed

lemma visitField_attribute:
  assumes "Split tag annotationSeperator = annotationAttribute # name # mods"
  shows "visitField caps sl (Field tag v) node inc =
           (case visitAttribute (annotationAttribute # name # mods) v node of
              Inl e \<Rightarrow> Inl e | Inr n \<Rightarrow> Inr (n, inc))"
  by (simp add: visitField_Done [OF dispatchField_attribute [OF assms]])

lemma putAttribute_made:
  "putAttribute k a (makeAttributes node) =
     Inr (Node (Type node) (ID node) (ClientID node)
            (Some (AList.update k a (case Attributes node of None \<Rightarrow> [] | Some al \<Rightarrow> al)))
            (Relationships node) (Links node) (Meta node))"
  by (cases node) (simp split: option.splits)

lemma Attributes_makeAttributes:
  "Attributes (makeAttributes node) = Some (case Attributes node of None \<Rightarrow> [] | Some al \<Rightarrow> al)"
  by (cases node) (simp split: option.splits)

lemma attribute_makeAttributes: "attribute (makeAttributes node) = attribute node"
  by (cases node) (auto simp: attribute_def split: option.splits)

lemma attribute_put:
  assumes "putAttribute k a (makeAttributes node) = Inr node'"
  shows "attribute node' k = Some a"
  using assms by (auto simp: putAttribute_made attribute_def update_conv')

lemma visitAttribute_map_made:
  assumes "visitAttribute args v node = Inr node'"
  shows "Attributes node' \<noteq> None"
  using assms
  by (auto simp: visitAttribute_def Let_def putAttribute_made Attributes_makeAttributes
      split: if_splits Value.splits)

lemma visitAttribute_omitted:
  assumes "visitAttribute args v node = Inr node'" and "omitsAttribute (attrModifiers args) v"
  shows "node' = makeAttributes node"
  using assms
  by (cases v)
     (auto simp: visitAttribute_def Let_def omitsAttribute_def split: if_splits Value.splits)

text \<open>
  Claim C9, as amended. The attributes map is made when the first attribute field is
  visited, before the omission rules are looked at: after an attribute field the node
  has an attributes map, and when the field is omitted the node is the one it was with
  the map made, with the same entries as before; a node that had no map then has the
  empty map.
\<close>

theorem attributes_map_made_at_first_attribute_field:
  assumes "Split tag annotationSeperator = annotationAttribute # name # mods"
      and "visitField caps sl (Field tag v) node inc = Inr (node', inc')"
  shows "Attributes node' \<noteq> None
       \<and> (omitsAttribute (attrModifiers (annotationAttribute # name # mods)) v \<longrightarrow>
            node' = makeAttributes node \<and> attribute node' = attribute node
            \<and> (Attributes node = None \<longrightarrow> Attributes node' = Some []))"
proof -
  have r: "visitAttribute (annotationAttribute # name # mods) v node = Inr node'"
    using assms(2) by (simp add: visitField_attribute [OF assms(1)] split: sum.splits)
  show ?thesis
    using visitAttribute_map_made [OF r] visitAttribute_omitted [OF r]
    by (auto simp: attribute_makeAttributes Attributes_makeAttributes)
qed

theorem attributes_map_made_at_first_attribute_field_witness:
  "Attributes (Node [] [] [] (Some []) None None None) \<noteq> None
   \<and> Node [] [] [] (Some []) None None None = makeAttributes newNode
   \<and> Attributes (Node [] [] [] (Some []) None None None) = Some []"
proof -
  have a: "Split ''attr,created,omitempty'' annotationSeperator
      = annotationAttribute # ''created'' # [''omitempty'']"
    by code_simp
  have b: "visitField noCaps True (Field ''attr,created,omitempty'' (VTime zeroTime)) newNode
      (Some []) = Inr (Node [] [] [] (Some []) None None None, Some [])"
    by code_simp
  have c: "omitsAttribute (attrModifiers (annotationAttribute # ''created'' # [''omitempty'']))
      (VTime zeroTime)"
    by code_simp
  have d: "Attributes newNode = None" by code_simp
  show ?thesis
    using attributes_map_made_at_first_attribute_field [OF a b] c d by blast
qed

text \<open>
  Claim C9 as stated fails: a node all of whose attribute fields are omitted has the
  empty attributes map, a node with no attribute field has none.
\<close>

theorem lazy_attributes_map_counterexample:
  "visitModelNode (VPtr (VStruct ''W''
       [Field ''attr,created,omitempty'' (VTime zeroTime), Field ''attr,name,omitempty'' (VString [])]
       noCaps)) None False
     = Inr (Some (Node [] [] [] (Some []) None None None), None)
   \<and> visitModelNode (VPtr (VStruct ''W'' [] noCaps)) None False
     = Inr (Some (Node [] [] [] None None None None), None)"
  by code_simp

section \<open>Timestamp attributes\<close>

lemma Format_iso8601: "Format (UTC t) iso8601TimeFormat = utcTimestamp t"
  by (simp add: iso8601TimeFormat_def utcTimestamp_def UTC_def localSec_def Let_def
      split: prod.splits)

lemma Format_RFC3339: "Format (UTC t) RFC3339 = utcTimestamp t"
  by (simp add: RFC3339_def utcTimestamp_def UTC_def localSec_def zoneString_def Let_def
      split: prod.splits)

lemma attrModifiers_flags:
  "attrModifiers args =
     \<lparr>omitEmpty = (annotationOmitEmpty \<in> set (drop 2 args)),
      iso8601 = (annotationISO8601 \<in> set (drop 2 args)),
      rfc3339 = (annotationRFC3339 \<in> set (drop 2 args))\<rparr>"
  by (simp add: attrModifiers_def scanModifiers_flags Let_def)

lemma timeAttribute_cases:
  "timeAttribute (attrModifiers (a # n # mods)) t =
     (if annotationISO8601 \<in> set mods \<or> annotationRFC3339 \<in> set mods
      then VString (utcTimestamp t) else VInt64 (Unix t))"
  by (simp add: timeAttribute_def attrModifiers_flags Format_iso8601 Format_RFC3339)

text \<open>
  Claim C3. A timestamp attribute that is no pointer and holds the zero time leaves the
  entries of the attribute map as they were, whatever the modifiers. A timestamp that
  is not zero, held directly or behind a pointer, is stored under the field's name: with
  \<^verbatim>\<open>iso8601\<close> as the UTC timestamp \<^verbatim>\<open>YYYY-MM-DDThh:mm:ssZ\<close>, which is what the ISO-8601
  layout prints; with \<^verbatim>\<open>rfc3339\<close> as the same string, which is what the RFC 3339 layout
  prints for a UTC time; with neither as the Unix seconds, a 64-bit integer.
\<close>

theorem timestamp_attributes:
  assumes "Split tag annotationSeperator = annotationAttribute # name # mods"
  shows "(IsZero t \<longrightarrow>
            visitField caps sl (Field tag (VTime t)) node inc = Inr (makeAttributes node, inc)
            \<and> attribute (makeAttributes node) = attribute node)
       \<and> (\<not> IsZero t \<and> (fieldValue = VTime t \<or> fieldValue = VPtr (VTime t)) \<longrightarrow>
            (\<exists>node'. visitField caps sl (Field tag fieldValue) node inc = Inr (node', inc)
               \<and> attribute node' name =
                    Some (Val (if annotationISO8601 \<in> set mods then VString (utcTimestamp t)
                               else if annotationRFC3339 \<in> set mods then VString (utcTimestamp t)
                               else VInt64 (Unix t)))
               \<and> utcTimestamp t = Format (UTC t) iso8601TimeFormat
               \<and> utcTimestamp t = Format (UTC t) RFC3339))"
proof -
  let ?args = "annotationAttribute # name # mods"
  have zero: "visitAttribute ?args (VTime t) node = Inr (makeAttributes node)" if "IsZero t"
    using that by (simp add: visitAttribute_def)
  have nonzero: "\<exists>node'. visitAttribute ?args fieldValue node = Inr node'
        \<and> attribute node' name = Some (Val (timeAttribute (attrModifiers ?args) t))"
    if "\<not> IsZero t" "fieldValue = VTime t \<or> fieldValue = VPtr (VTime t)"
  proof -
    obtain node' where p: "putAttribute name (Val (timeAttribute (attrModifiers ?args) t))
        (makeAttributes node) = Inr node'"
      by (simp add: putAttribute_made)
    have "visitAttribute ?args fieldValue node = Inr node'"
      using that p by (auto simp: visitAttribute_def)
    with attribute_put [OF p] show ?thesis by blast
  qed
  show ?thesis
    using zero nonzero
    by (auto simp: visitField_attribute [OF assms] attribute_makeAttributes
        timeAttribute_cases Format_iso8601 Format_RFC3339)
qed

theorem timestamp_attributes_witness:
  "visitField noCaps True (Field ''attr,created,iso8601'' (VTime zeroTime)) newNode (Some [])
      = Inr (makeAttributes newNode, Some [])
   \<and> attribute (makeAttributes newNode) = attribute newNode
   \<and> (\<exists>node'. visitField noCaps True
          (Field ''attr,created,iso8601''
             (VPtr (VTime \<lparr>unixSec = 951782400, nsec = 0, zoneOffset = 3600\<rparr>)))
          newNode (Some []) = Inr (node', Some [])
        \<and> attribute node' ''created'' = Some (Val (VString ''2000-02-29T00:00:00Z'')))"
proof -
  let ?t = "\<lparr>unixSec = 951782400, nsec = 0, zoneOffset = 3600\<rparr>"
  have a: "Split ''attr,created,iso8601'' annotationSeperator
      = annotationAttribute # ''created'' # [''iso8601'']"
    by code_simp
  have z: "IsZero zeroTime" by code_simp
  have n: "\<not> IsZero ?t" by code_simp
  have u: "utcTimestamp ?t = ''2000-02-29T00:00:00Z''" by code_simp
  have m: "annotationISO8601 \<in> set [''iso8601'']" by code_simp
  show ?thesis
    using timestamp_attributes [OF a, where t = zeroTime and caps = noCaps and sl = True
        and node = newNode and inc = "Some []"]
      timestamp_attributes [OF a, where t = ?t and fieldValue = "VPtr (VTime ?t)"
        and caps = noCaps and sl = True and node = newNode and inc = "Some []"]
      z n u m
    by auto
qed

section \<open>Primary keys of every kind\<close>

text \<open>
  Claim C2, as amended. A primary-key field that holds a signed or unsigned integer of
  any width, Go's \<^verbatim>\<open>int\<close> and \<^verbatim>\<open>uint\<close> among them, directly or behind a pointer that is
  not nil: the id is the canonical decimal string of the number, read as signed for a
  signed type and as unsigned for an unsigned one, and reading the string back gives
  the number. A string key is copied as it is. A field of any other kind stops the loop
  with the unsupported-identifier error, and no node is built.
\<close>

theorem primary_key_encoding:
  assumes "Split tag annotationSeperator = annotationPrimary # ty # rest"
  shows "(integerKey v = Some i \<and> (fieldValue = v \<or> fieldValue = VPtr v) \<longrightarrow>
            (\<exists>node'. visitField caps sl (Field tag fieldValue) node inc = Inr (node', inc)
               \<and> ID node' = decimalString i \<and> parseDecimal (ID node') = i \<and> Type node' = ty))
       \<and> (fieldValue = VString s \<or> fieldValue = VPtr (VString s) \<longrightarrow>
            (\<exists>node'. visitField caps sl (Field tag fieldValue) node inc = Inr (node', inc)
               \<and> ID node' = s \<and> Type node' = ty))
       \<and> (primaryKind fieldValue \<notin> {KString, KInt, KInt8, KInt16, KInt32, KInt64,
                                      KUint, KUint8, KUint16, KUint32, KUint64} \<longrightarrow>
            visitField caps sl (Field tag fieldValue) node inc = Inl ErrBadJSONAPIID
            \<and> visitModelNode (VPtr (VStruct n (Field tag fieldValue # post) caps)) inc sl
                = Inl ErrBadJSONAPIID)"
proof -
  let ?args = "annotationPrimary # ty # rest"
  note vf = visitField_primary [OF assms]
  have 1: "\<exists>node'. visitField caps sl (Field tag fieldValue) node inc = Inr (node', inc)
               \<and> ID node' = decimalString i \<and> parseDecimal (ID node') = i \<and> Type node' = ty"
    if "integerKey v = Some i" "fieldValue = v \<or> fieldValue = VPtr v"
    using visitPrimary_integer [OF that, of ?args node]
    by (simp add: vf ID_setType_setID Type_setType_setID parseDecimal_decimalString)
  have 2: "\<exists>node'. visitField caps sl (Field tag fieldValue) node inc = Inr (node', inc)
               \<and> ID node' = s \<and> Type node' = ty"
    if "fieldValue = VString s \<or> fieldValue = VPtr (VString s)"
    using visitPrimary_string [OF that, of ?args node]
    by (simp add: vf ID_setType_setID Type_setType_setID)
  have 3: "visitField caps sl (Field tag fieldValue) node' inc = Inl ErrBadJSONAPIID"
    if "primaryKind fieldValue \<notin> {KString, KInt, KInt8, KInt16, KInt32, KInt64,
                                      KUint, KUint8, KUint16, KUint32, KUint64}" for node'
    using visitPrimary_unsupported [OF that, of ?args node'] by (simp add: vf)
  have 4: "visitModelNode (VPtr (VStruct n (Field tag fieldValue # post) caps)) inc sl
                = Inl ErrBadJSONAPIID"
    if "primaryKind fieldValue \<notin> {KString, KInt, KInt8, KInt16, KInt32, KInt64,
                                      KUint, KUint8, KUint16, KUint32, KUint64}"
    using visitModelNode_field_error [of caps sl "[]" inc newNode inc "Field tag fieldValue"
        ErrBadJSONAPIID n post] 3 [OF that]
    by simp
  from 1 2 3 4 show ?thesis by blast
qed

theorem primary_key_encoding_witness:
  "(\<exists>node'. visitField noCaps True (Field ''primary,w'' (VInt8 (- 1))) newNode (Some [])
        = Inr (node', Some [])
      \<and> ID node' = ''-1'' \<and> parseDecimal (ID node') = - 1 \<and> Type node' = ''w'')
   \<and> (\<exists>node'. visitField noCaps True (Field ''primary,w'' (VPtr (VUint8 255))) newNode (Some [])
        = Inr (node', Some [])
      \<and> ID node' = ''255'' \<and> parseDecimal (ID node') = 255 \<and> Type node' = ''w'')
   \<and> (\<exists>node'. visitField noCaps True (Field ''primary,w'' (VString ''a-7'')) newNode (Some [])
        = Inr (node', Some [])
      \<and> ID node' = ''a-7'' \<and> Type node' = ''w'')
   \<and> visitModelNode (VPtr (VStruct ''W'' (Field ''primary,w'' (VBool True) # []) noCaps))
        (Some []) True = Inl ErrBadJSONAPIID"
proof -
  have a: "Split ''primary,w'' annotationSeperator = annotationPrimary # ''w'' # []"
    by code_simp
  have k1: "integerKey (VInt8 (- 1)) = Some (- 1)" by code_simp
  have k2: "integerKey (VUint8 255) = Some 255" by code_simp
  have d1: "decimalString (- 1) = ''-1''" by code_simp
  have d2: "decimalString 255 = ''255''" by code_simp
  have k3: "primaryKind (VBool True) \<notin> {KString, KInt, KInt8, KInt16, KInt32, KInt64,
                                      KUint, KUint8, KUint16, KUint32, KUint64}"
    by code_simp
  show ?thesis
    using primary_key_encoding [OF a, where v = "VInt8 (- 1)" and i = "- 1"
        and fieldValue = "VInt8 (- 1)" and caps = noCaps and sl = True and node = newNode
        and inc = "Some []"]
      primary_key_encoding [OF a, where v = "VUint8 255" and i = 255
        and fieldValue = "VPtr (VUint8 255)" and caps = noCaps and sl = True and node = newNode
        and inc = "Some []"]
      primary_key_encoding [OF a, where fieldValue = "VString ''a-7''" and s = "''a-7''"
        and caps = noCaps and sl = True and node = newNode and inc = "Some []"]
      primary_key_encoding [OF a, where fieldValue = "VBool True" and caps = noCaps
        and sl = True and node = newNode and inc = "Some []" and n = "''W''" and post = "[]"]
      k1 k2 k3 d1 d2
    by auto
qed

text \<open>
  Claim C2 as stated fails in its last part: Go's \<^verbatim>\<open>int\<close> is none of the kinds the
  claim lists, and a key of that kind is encoded, not rejected.
\<close>

theorem machine_width_key_counterexample:
  "primaryKind (VInt 5) \<notin> {KString, KInt8, KInt16, KInt32, KInt64,
                            KUint8, KUint16, KUint32, KUint64}
   \<and> visitModelNode (VPtr (VStruct ''W'' [Field ''primary,w'' (VInt 5)] noCaps)) (Some []) True
     = Inr (Some (Node ''w'' ''5'' [] None None None None), Some [])"
  by code_simp

section \<open>Embedded mode\<close>

lemma storeToMany_embedded:
  "storeToMany caps False args nodes inc node = Inr (node', inc') \<Longrightarrow> inc' = inc"
  by (auto simp: storeToMany_def Let_def split: sum.splits)

lemma storeToOne_embedded:
  "storeToOne caps False args rel inc node = Inr (node', inc') \<Longrightarrow> inc' = inc"
  by (auto simp: storeToOne_def Let_def split: sum.splits)

lemma embedded_registry:
  "visitModelNode model included sideload = Inr (no, inc') \<Longrightarrow> \<not> sideload \<Longrightarrow> inc' = included"
  "visitFields caps sideload fs node included = Inr (node', inc') \<Longrightarrow> \<not> sideload
     \<Longrightarrow> inc' = included"
  "visitField caps sideload f node included = Inr (node', inc') \<Longrightarrow> \<not> sideload
     \<Longrightarrow> inc' = included"
  "visitModelNodeRelationships models included sideload = Inr (ns, inc') \<Longrightarrow> \<not> sideload
     \<Longrightarrow> inc' = included"
  "visitElems xs included sideload = Inr (ns, inc') \<Longrightarrow> \<not> sideload \<Longrightarrow> inc' = included"
proof (induction model included sideload and caps sideload fs node included
    and caps sideload f node included and models included sideload and xs included sideload
    arbitrary: no inc' and node' inc' and node' inc' and ns inc' and ns inc'
    rule: visitModelNode_visitFields_visitField_visitModelNodeRelationships_visitElems.induct)
  case (1 model included sideload)
  then show ?case
    by (auto simp: visitModelNode.simps split: Value.splits sum.splits prod.splits)
next
  case (2 caps sideload node included)
  then show ?case by simp
next
  case (3 caps sideload f fs node included)
  then show ?case by (auto split: sum.splits prod.splits)
next
  case (4 caps sideload tag fieldValue node included)
  then show ?case
    by (auto simp: visitField.simps split: Dispatch.splits sum.splits prod.splits
        dest: storeToMany_embedded storeToOne_embedded)
next
  case (5 models included sideload)
  then show ?case
    by (auto simp: visitModelNodeRelationships.simps split: Value.splits)
next
  case (6 included sideload)
  then show ?case by simp
next
  case (7 x xs included sideload)
  then show ?case by (auto split: sum.splits prod.splits)
qed

lemma visitElems_embedded_nodes:
  "visitElems xs inc False = Inr (nodes, inc') \<Longrightarrow>
   nodes = concat (map (\<lambda>x. case visitModelNode x inc False of
                                Inr (Some n, i) \<Rightarrow> [n] | _ \<Rightarrow> []) xs)"
proof (induction xs arbitrary: nodes inc')
  case Nil
  then show ?case by simp
next
  case (Cons x xs)
  from Cons.prems obtain no i1 ns where
    h: "visitModelNode x inc False = Inr (no, i1)" and
    t: "visitElems xs i1 False = Inr (ns, inc')" and
    n: "nodes = (case no of None \<Rightarrow> [] | Some n \<Rightarrow> [n]) @ ns"
    by (auto split: sum.splits prod.splits)
  have "i1 = inc" using embedded_registry(1) [OF h] by simp
  with t Cons.IH have "ns = concat (map (\<lambda>x. case visitModelNode x inc False of
                                Inr (Some n, i) \<Rightarrow> [n] | _ \<Rightarrow> []) xs)"
    by simp
  with h n show ?case by (cases no) simp_all
qed

lemma visitModelNode_pointer:
  "visitModelNode (VPtr t) inc sl = Inr (no, inc') \<Longrightarrow> \<exists>n. no = Some n"
  by (auto simp: visitModelNode.simps split: Value.splits sum.splits prod.splits)

lemma visitRelation_pointer: "visitRelation args (VPtr t) node = ToOne args"
  by (simp add: visitRelation_def relOmitted_def)

lemma visitRelation_slice: "xs \<noteq> [] \<Longrightarrow> visitRelation args (VSlice ty xs) node = ToMany args"
  by (simp add: visitRelation_def relOmitted_def)

lemma visitField_to_one:
  assumes "Split tag annotationSeperator = annotationRelation # name # mods"
  shows "visitField caps sl (Field tag (VPtr t)) node inc =
           (case visitModelNode (VPtr t) inc sl of
              Inl err \<Rightarrow> Inl err
            | Inr (rel, inc') \<Rightarrow>
                storeToOne caps sl (annotationRelation # name # mods) rel inc'
                  (makeRelationships node))"
  by (simp add: visitField.simps dispatchField_relation [OF assms] visitRelation_pointer)

lemma visitField_to_many:
  assumes "Split tag annotationSeperator = annotationRelation # name # mods" and "xs \<noteq> []"
  shows "visitField caps sl (Field tag (VSlice ty xs)) node inc =
           (case visitElems xs inc sl of
              Inl err \<Rightarrow> Inl err
            | Inr (nodes, inc') \<Rightarrow>
                storeToMany caps sl (annotationRelation # name # mods) nodes inc'
                  (makeRelationships node))"
  by (simp add: visitField.simps dispatchField_relation [OF assms(1)]
      visitRelation_slice [OF assms(2)] visitModelNodeRelationships.simps)

text \<open>
  Claim C5. The embedded entry point returns a payload without an included list, whose
  data is the node the traversal builds with sideloading off and the nil registry,
  which stays nil. In that mode a to-one relationship with a target holds the full node
  the traversal builds for the target, and a to-many relationship holds, in order, the
  full node of every element that has one: a resource referenced twice is nested twice.
\<close>

theorem embedded_payload_nests_full_nodes:
  assumes "Split tag annotationSeperator = annotationRelation # name # mods"
  shows "(MarshalOnePayloadEmbedded model = Inr payload \<longrightarrow>
            oneIncluded payload = None
            \<and> visitModelNode model None False = Inr (oneData payload, None))
       \<and> (visitField caps False (Field tag (VPtr target)) node None = Inr (node', inc') \<longrightarrow>
            inc' = None
            \<and> (\<exists>full. visitModelNode (VPtr target) None False = Inr (Some full, None)
                 \<and> relationship node' name =
                      Some (RelationshipOneNode (Some full) (relLinksOf caps name)
                              (relMetaOf caps name))))
       \<and> (xs \<noteq> [] \<and> visitField caps False (Field tag (VSlice ty xs)) node None = Inr (node', inc')
            \<longrightarrow> inc' = None
            \<and> relationship node' name =
                 Some (RelationshipManyNode
                         (concat (map (\<lambda>x. case visitModelNode x None False of
                                               Inr (Some n, i) \<Rightarrow> [n] | _ \<Rightarrow> []) xs))
                         (relLinksOf caps name) (relMetaOf caps name)))"
proof -
  let ?args = "annotationRelation # name # mods"
  have root: "oneIncluded payload = None
      \<and> visitModelNode model None False = Inr (oneData payload, None)"
    if "MarshalOnePayloadEmbedded model = Inr payload"
  proof -
    from that obtain rootNode inc where
      v: "visitModelNode model None False = Inr (rootNode, inc)" and
      p: "payload = \<lparr>oneData = rootNode, oneIncluded = None, oneLinks = None, oneMeta = None\<rparr>"
      by (auto simp: MarshalOnePayloadEmbedded_def split: sum.splits prod.splits)
    have "inc = None" using embedded_registry(1) [OF v] by simp
    with v p show ?thesis by simp
  qed
  have one: "inc' = None
      \<and> (\<exists>full. visitModelNode (VPtr target) None False = Inr (Some full, None)
            \<and> relationship node' name =
                 Some (RelationshipOneNode (Some full) (relLinksOf caps name)
                         (relMetaOf caps name)))"
    if f: "visitField caps False (Field tag (VPtr target)) node None = Inr (node', inc')"
  proof -
    from f obtain rel i1 where
      v: "visitModelNode (VPtr target) None False = Inr (rel, i1)" and
      st: "storeToOne caps False ?args rel i1 (makeRelationships node) = Inr (node', inc')"
      by (auto simp: visitField_to_one [OF assms] split: sum.splits prod.splits)
    have i1: "i1 = None" using embedded_registry(1) [OF v] by simp
    obtain full where rel: "rel = Some full" using visitModelNode_pointer [OF v] by blast
    from st have "inc' = i1"
      and p: "putRelationship name
          (RelationshipOneNode rel (relLinksOf caps name) (relMetaOf caps name))
          (makeRelationships node) = Inr node'"
      by (auto simp: storeToOne_def Let_def split: sum.splits)
    with relationship_put [OF p] v i1 rel show ?thesis by simp
  qed
  have many: "inc' = None
      \<and> relationship node' name =
           Some (RelationshipManyNode
                   (concat (map (\<lambda>x. case visitModelNode x None False of
                                         Inr (Some n, i) \<Rightarrow> [n] | _ \<Rightarrow> []) xs))
                   (relLinksOf caps name) (relMetaOf caps name))"
    if ne: "xs \<noteq> []"
      and f: "visitField caps False (Field tag (VSlice ty xs)) node None = Inr (node', inc')"
  proof -
    from f obtain nodes i1 where
      v: "visitElems xs None False = Inr (nodes, i1)" and
      st: "storeToMany caps False ?args nodes i1 (makeRelationships node) = Inr (node', inc')"
      by (auto simp: visitField_to_many [OF assms ne] split: sum.splits prod.splits)
    have i1: "i1 = None" using embedded_registry(5) [OF v] by simp
    from st have "inc' = i1"
      and p: "putRelationship name
          (RelationshipManyNode nodes (relLinksOf caps name) (relMetaOf caps name))
          (makeRelationships node) = Inr node'"
      by (auto simp: storeToMany_def Let_def split: sum.splits)
    with relationship_put [OF p] visitElems_embedded_nodes [OF v] i1 show ?thesis by simp
  qed
  from root one many show ?thesis by blast
qed

theorem embedded_payload_nests_full_nodes_witness:
  "oneIncluded \<lparr>oneData = Some (Node ''authors'' ''9'' []
        (Some [(''name'', Val (VString ''Ann''))]) None None None),
      oneIncluded = None, oneLinks = None, oneMeta = None\<rparr> = None
   \<and> (\<exists>full. visitModelNode
          (VPtr (VStruct ''Author'' [Field ''primary,authors'' (VInt64 9),
             Field ''attr,name'' (VString ''Ann'')] noCaps)) None False = Inr (Some full, None)
        \<and> relationship
             (Node [] [] [] None (Some [(''author'', RelationshipOneNode
                (Some (Node ''authors'' ''9'' [] (Some [(''name'', Val (VString ''Ann''))])
                   None None None)) None None)]) None None)
             ''author''
           = Some (RelationshipOneNode (Some full) (relLinksOf noCaps ''author'')
                     (relMetaOf noCaps ''author'')))
   \<and> relationship
        (Node [] [] [] None (Some [(''author'', RelationshipManyNode
           [Node ''authors'' ''9'' [] (Some [(''name'', Val (VString ''Ann''))]) None None None,
            Node ''authors'' ''9'' [] (Some [(''name'', Val (VString ''Ann''))]) None None None]
           None None)]) None None)
        ''author''
      = Some (RelationshipManyNode
          [Node ''authors'' ''9'' [] (Some [(''name'', Val (VString ''Ann''))]) None None None,
           Node ''authors'' ''9'' [] (Some [(''name'', Val (VString ''Ann''))]) None None None]
          (relLinksOf noCaps ''author'') (relMetaOf noCaps ''author''))"
proof -
  let ?a = "VStruct ''Author'' [Field ''primary,authors'' (VInt64 9),
      Field ''attr,name'' (VString ''Ann'')] noCaps"
  let ?n = "Node ''authors'' ''9'' [] (Some [(''name'', Val (VString ''Ann''))]) None None None"
  have a: "Split ''relation,author'' annotationSeperator = annotationRelation # ''author'' # []"
    by code_simp
  have m: "MarshalOnePayloadEmbedded (VPtr ?a)
      = Inr \<lparr>oneData = Some ?n, oneIncluded = None, oneLinks = None, oneMeta = None\<rparr>"
    by code_simp
  have o: "visitField noCaps False (Field ''relation,author'' (VPtr ?a)) newNode None
      = Inr (Node [] [] [] None (Some [(''author'', RelationshipOneNode (Some ?n) None None)])
               None None, None)"
    by code_simp
  have s: "visitField noCaps False
        (Field ''relation,author'' (VSlice (TPtr (TStruct ''Author'')) [VPtr ?a, VPtr ?a]))
        newNode None
      = Inr (Node [] [] [] None (Some [(''author'', RelationshipManyNode [?n, ?n] None None)])
               None None, None)"
    by code_simp
  have ne: "[VPtr ?a, VPtr ?a] \<noteq> []" by simp
  have c: "concat (map (\<lambda>x. case visitModelNode x None False of
                           Inr (Some n, i) \<Rightarrow> [n] | _ \<Rightarrow> []) [VPtr ?a, VPtr ?a]) = [?n, ?n]"
    by code_simp
  note t = embedded_payload_nests_full_nodes [OF a, where caps = noCaps and node = newNode]
  from t [where model = "VPtr ?a"] m have 1: "oneIncluded \<lparr>oneData = Some ?n,
      oneIncluded = None, oneLinks = None, oneMeta = None\<rparr> = None"
    by blast
  from t [where target = ?a] o have 2: "\<exists>full. visitModelNode (VPtr ?a) None False
        = Inr (Some full, None)
      \<and> relationship
           (Node [] [] [] None (Some [(''author'', RelationshipOneNode (Some ?n) None None)])
              None None) ''author''
         = Some (RelationshipOneNode (Some full) (relLinksOf noCaps ''author'')
                   (relMetaOf noCaps ''author''))"
    by blast
  from t [where xs = "[VPtr ?a, VPtr ?a]" and ty = "TPtr (TStruct ''Author'')"] s ne
  have 3: "relationship
        (Node [] [] [] None (Some [(''author'', RelationshipManyNode [?n, ?n] None None)])
           None None) ''author''
      = Some (RelationshipManyNode
          (concat (map (\<lambda>x. case visitModelNode x None False of
                                Inr (Some n, i) \<Rightarrow> [n] | _ \<Rightarrow> []) [VPtr ?a, VPtr ?a]))
          (relLinksOf noCaps ''author'') (relMetaOf noCaps ''author''))"
    by blast
  from 1 2 3 c show ?thesis by simp
qed

section \<open>Sideload mode\<close>




lemma set_update_subset: "set (AList.update k v al) \<subseteq> insert (k, v) (set al)"
  by (induction al) auto



lemma Relationships_putAttribute:
  "putAttribute k a node = Inr node' \<Longrightarrow> Relationships node' = Relationships node"
  by (cases node) (auto split: option.splits)




lemma references_put:
  assumes "putRelationship k rel (makeRelationships node) = Inr node'"
  shows "set (references node') \<subseteq> set (references node) \<union> set (relData rel)"
proof -
  define rl0 where "rl0 = (case Relationships node of None \<Rightarrow> [] | Some rl \<Rightarrow> rl)"
  have a: "set (references node) = (\<Union>e \<in> set rl0. set (relData (snd e)))"
    by (cases "Relationships node") (simp_all add: references_def rl0_def)
  have r: "Relationships node' = Some (AList.update k rel rl0)"
    using assms by (auto simp: putRelationship_made rl0_def)
  have b: "set (references node') = (\<Union>e \<in> set (AList.update k rel rl0). set (relData (snd e)))"
    by (simp add: references_def r)
  have c: "set (AList.update k rel rl0) \<subseteq> insert (k, rel) (set rl0)"
    by (rule set_update_subset)
  show ?thesis unfolding a b using c by fastforce
qed

lemma refsIn_put:
  assumes "putRelationship k rel (makeRelationships node) = Inr node'"
      and "refsIn K node" and "\<forall>d \<in> set (relData rel). isShallow d \<and> nodeKey d \<in> K"
  shows "refsIn K node'"
  using references_put [OF assms(1)] assms(2,3) by (auto simp: refsIn_def)








lemma refsIn_makeRelationships_put:
  assumes "putRelationship k rel (makeRelationships node) = Inr node'"
      and "refsIn K node" and "\<forall>d \<in> set (relData rel). isShallow d \<and> nodeKey d \<in> K"
  shows "refsIn K node'"
  by (rule refsIn_put [OF assms])












end
